theory Spec2Isabelle
  imports Main "HOL-Library.Sublist"
begin

section \<open>The CSV upload relay of \<^verbatim>\<open>server.js\<close>\<close>

text \<open>
  \<^verbatim>\<open>server.js\<close> is an Express application with two routes. \<^verbatim>\<open>GET /\<close> sends an
  HTML form. \<^verbatim>\<open>POST /upload\<close> runs the middleware \<^verbatim>\<open>upload.single('csvFile')\<close>,
  and then a handler that spawns \<^verbatim>\<open>python3\<close> on the uploaded file and answers from
  the child's \<^verbatim>\<open>'close'\<close> event.

  The handler is asynchronous: it registers callbacks and returns. The model makes
  this explicit. A request in flight is a record (\<open>conn\<close>) holding the response
  object, the spawned child, the console output and an exception that escaped a
  callback, if any. Each callback of the source is a function on that record, and
  the events the runtime delivers are a list that \<open>run\<close> folds over.

  Exceptions are values: a function that can throw returns \<open>js_error + 'a\<close>.

  The source calls three libraries: Node's \<^verbatim>\<open>path\<close>, multer and Express's response
  object (with the \<^verbatim>\<open>send\<close> module behind \<^verbatim>\<open>res.download\<close>). They are modelled by
  what they do for the calls the source makes; what the runtime chooses (the
  generated file name, the files on disk, the outcome of a transfer, the events of
  the child) is a parameter. Express dispatches \<^verbatim>\<open>app.post\<close> for POST requests only
  and \<^verbatim>\<open>app.get\<close> for GET and HEAD, so the method is an argument of the response
  functions and the upload route passes POST.
\<close>

subsection \<open>Paths: \<^verbatim>\<open>path.join\<close> on a POSIX host\<close>

type_synonym path = string
type_synonym bytes = string

text \<open>\<^verbatim>\<open>split('/')\<close>: the segments between slashes, empty ones included.\<close>

fun split_slash :: "string \<Rightarrow> string list" where
  "split_slash [] = [[]]"
| "split_slash (c # cs) =
     (if c = CHR ''/'' then [] # split_slash cs
      else (case split_slash cs of
              [] \<Rightarrow> [[c]]
            | s # ss \<Rightarrow> (c # s) # ss))"

text \<open>
  Node's \<^verbatim>\<open>normalizeString\<close>: empty segments and \<^verbatim>\<open>.\<close> are dropped, \<^verbatim>\<open>..\<close>
  removes the segment before it; above the start of a relative path it is kept
  (\<open>allowAboveRoot\<close>), above the root it is dropped. \<open>acc\<close> is the result so far, reversed.
\<close>

fun normalize_segments :: "bool \<Rightarrow> string list \<Rightarrow> string list \<Rightarrow> string list" where
  "normalize_segments allowAboveRoot acc [] = rev acc"
| "normalize_segments allowAboveRoot acc (s # ss) =
     (if s = [] \<or> s = ''.'' then normalize_segments allowAboveRoot acc ss
      else if s = ''..'' then
        (case acc of
           [] \<Rightarrow> normalize_segments allowAboveRoot (if allowAboveRoot then [''..''] else []) ss
         | a # as \<Rightarrow>
             if a = ''..'' then normalize_segments allowAboveRoot (''..'' # acc) ss
             else normalize_segments allowAboveRoot as ss)
      else normalize_segments allowAboveRoot (s # acc) ss)"

fun join_slash :: "string list \<Rightarrow> string" where
  "join_slash [] = []"
| "join_slash [s] = s"
| "join_slash (s # t # ss) = s @ ''/'' @ join_slash (t # ss)"

definition path_normalize :: "path \<Rightarrow> path" where
  "path_normalize p =
     (if p = [] then ''.''
      else
        let isAbsolute = (hd p = CHR ''/'');
            trailingSeparator = (last p = CHR ''/'');
            q = join_slash (normalize_segments (\<not> isAbsolute) [] (split_slash p))
        in if q = [] then
             (if isAbsolute then ''/'' else if trailingSeparator then ''./'' else ''.'')
           else
             (let q' = (if trailingSeparator then q @ ''/'' else q)
              in if isAbsolute then ''/'' @ q' else q'))"

text \<open>\<^verbatim>\<open>path.join(...args)\<close>: the nonempty arguments joined by \<^verbatim>\<open>/\<close>, then normalised.\<close>

definition path_join :: "path list \<Rightarrow> path" where
  "path_join args =
     (case filter (\<lambda>a. a \<noteq> []) args of
        [] \<Rightarrow> ''.''
      | a # as \<Rightarrow> path_normalize (join_slash (a # as)))"

subsection \<open>Requests\<close>

text \<open>
  The request headers that Express and \<^verbatim>\<open>send\<close> read, as they parse them. A header
  that is absent or empty is \<open>None\<close>. A date header is the time it denotes in
  milliseconds, or invalid. \<open>bytes_range\<close> is a \<^verbatim>\<open>Range\<close> header in the unit
  \<^verbatim>\<open>bytes\<close>: for each range the numbers before and after the dash, \<open>None\<close>
  where there is none. \<open>no_cache\<close> says that \<^verbatim>\<open>Cache-Control\<close> has the directive
  \<^verbatim>\<open>no-cache\<close>.
\<close>

datatype http_method = GET | HEAD | POST

datatype http_date = Invalid_date | Date nat

datatype if_range_value = Range_etag string | Range_date http_date

text \<open>The file system: what each path holds, if anything.\<close>

type_synonym fs = "path \<rightharpoonup> bytes"

datatype js_error =
    TypeError string
  | MulterError string string
  | SendError string
  | ERR_HTTP_HEADERS_SENT

text \<open>The object multer leaves in \<^verbatim>\<open>req.file\<close>.\<close>

record multer_file =
  fieldname :: string
  originalname :: string
  destination :: path
  filename :: string
  path :: path
  size_bytes :: nat

record request =
  if_match :: "string option"
  if_none_match :: "string option"
  if_modified_since :: "http_date option"
  if_unmodified_since :: "http_date option"
  if_range :: "if_range_value option"
  bytes_range :: "(nat option \<times> nat option) list option"
  no_cache :: bool
  req_file :: "multer_file option"

subsection \<open>The upload middleware: \<^verbatim>\<open>multer({ dest: 'uploads/' }).single('csvFile')\<close>\<close>

text \<open>
  The multipart body of a request is a list of parts, in the order sent. A file part
  has the field name, the file name as the client sent it and the content; a
  browser that submits the form with no file chosen sends a file part with an empty
  file name. A text field has its name and its value.
\<close>

datatype part =
    File_part string string bytes
  | Field_part string string

text \<open>
  The options object. The source gives \<^verbatim>\<open>dest\<close> only; a key that is absent
  (\<^verbatim>\<open>fileFilter\<close>, \<^verbatim>\<open>limits\<close>) is \<open>None\<close> or the library's default: multer then
  accepts every file, and a text value may not reach \<open>fieldSize\<close>, 1 MiB.
\<close>

record multer_options =
  dest :: path
  fileFilter :: "(string \<Rightarrow> string \<Rightarrow> bool) option"

definition upload :: multer_options where
  "upload = \<lparr>dest = ''uploads/'', fileFilter = None\<rparr>"

definition fieldSize :: nat where
  "fieldSize = 1048576"

definition includeFile :: "multer_options \<Rightarrow> string \<Rightarrow> string \<Rightarrow> bool" where
  "includeFile opts fld name =
     (case fileFilter opts of None \<Rightarrow> True | Some allow \<Rightarrow> allow fld name)"

text \<open>
  The parser (busboy) hands multer the base name of a file name: what follows the
  last slash or backslash, and nothing when that is \<^verbatim>\<open>.\<close> or \<^verbatim>\<open>..\<close>
\<close>

definition basename :: "string \<Rightarrow> string" where
  "basename s =
     (let b = rev (takeWhile (\<lambda>c. c \<noteq> CHR ''/'' \<and> c \<noteq> CHR 0x5C) (rev s))
      in if b = ''..'' \<or> b = ''.'' then [] else b)"

text \<open>
  \<^verbatim>\<open>single(name)\<close> is multer's middleware for the field list
  \<^verbatim>\<open>[{ name: name, maxCount: 1 }]\<close>. It takes the parts in order. A text field
  with no name, or with a value that reaches \<open>fieldSize\<close>, aborts the request;
  other text fields go to \<^verbatim>\<open>req.body\<close>, which the handler does not read. A file
  part whose base name is empty is passed over. A file in a field other than
  \<open>name\<close>, or a second file in \<open>name\<close> (\<open>filesLeft = 0\<close>), aborts the request
  with \<^verbatim>\<open>LIMIT_UNEXPECTED_FILE\<close>. An accepted file is written under \<^verbatim>\<open>dest\<close>
  with a generated name (\<open>gen\<close>, chosen by the runtime) and becomes \<^verbatim>\<open>req.file\<close>.
\<close>

fun single_parts ::
  "multer_options \<Rightarrow> string \<Rightarrow> string \<Rightarrow> nat \<Rightarrow> part list \<Rightarrow> multer_file option \<times> fs
     \<Rightarrow> js_error + (multer_file option \<times> fs)" where
  "single_parts opts name gen filesLeft [] st = Inr st"
| "single_parts opts name gen filesLeft (Field_part k v # ps) st =
     (if k = [] then Inl (MulterError ''MISSING_FIELD_NAME'' [])
      else if fieldSize \<le> length v then Inl (MulterError ''LIMIT_FIELD_VALUE'' k)
      else single_parts opts name gen filesLeft ps st)"
| "single_parts opts name gen filesLeft (File_part fld fname content # ps) (f, files) =
     (if basename fname = [] then single_parts opts name gen filesLeft ps (f, files)
      else if fld \<noteq> name \<or> filesLeft = 0 then Inl (MulterError ''LIMIT_UNEXPECTED_FILE'' fld)
      else if \<not> includeFile opts fld (basename fname) then
        single_parts opts name gen (filesLeft - 1) ps (f, files)
      else
        let p = path_join [dest opts, gen];
            stored = \<lparr>fieldname = fld, originalname = basename fname, destination = dest opts,
                      filename = gen, path = p, size_bytes = length content\<rparr>
        in single_parts opts name gen (filesLeft - 1) ps (Some stored, files(p \<mapsto> content)))"

text \<open>The middleware on a request \<open>req\<close> with the body \<open>parts\<close>.\<close>

definition single ::
  "multer_options \<Rightarrow> string \<Rightarrow> string \<Rightarrow> request \<Rightarrow> part list \<Rightarrow> fs
     \<Rightarrow> js_error + (request \<times> fs)" where
  "single opts name gen req parts files =
     (case single_parts opts name gen 1 parts (None, files) of
        Inl e \<Rightarrow> Inl e
      | Inr (f, files') \<Rightarrow> Inr (req\<lparr>req_file := f\<rparr>, files'))"

subsection \<open>The response object\<close>

text \<open>
  \<open>statusCode\<close> and \<open>headers\<close> are the fields of the object, which the application
  may set until the head is written; \<open>lastModified\<close> is the \<^verbatim>\<open>Last-Modified\<close>
  header, kept as the time it denotes. \<open>head_sent\<close> is the status line and the
  headers as they went to the client (\<^verbatim>\<open>res.headersSent\<close> is
  \<open>head_sent \<noteq> None\<close>), \<open>written\<close> the body bytes sent so far, \<open>finished\<close>
  whether the response has ended. The headers recorded are those that
  \<^verbatim>\<open>res.send\<close> and \<^verbatim>\<open>res.download\<close> set; \<^verbatim>\<open>X-Powered-By\<close>, \<^verbatim>\<open>Date\<close> and the
  connection headers are left out.
\<close>

record response =
  statusCode :: nat
  headers :: "(string \<times> string) list"
  lastModified :: "nat option"
  head_sent :: "(nat \<times> (string \<times> string) list) option"
  written :: bytes
  finished :: bool

definition new_response :: response where
  "new_response =
     \<lparr>statusCode = 200, headers = [], lastModified = None, head_sent = None,
      written = [], finished = False\<rparr>"

text \<open>What the client has received: the status, and a header of the head.\<close>

definition sent_status :: "response \<Rightarrow> nat option" where
  "sent_status res = map_option fst (head_sent res)"

definition sent_header :: "string \<Rightarrow> response \<Rightarrow> string option" where
  "sent_header k res = (case head_sent res of None \<Rightarrow> None | Some (s, hs) \<Rightarrow> map_of hs k)"

definition status :: "nat \<Rightarrow> response \<Rightarrow> response" where
  "status code res = res\<lparr>statusCode := code\<rparr>"

definition set_header :: "string \<Rightarrow> string \<Rightarrow> (string \<times> string) list \<Rightarrow> (string \<times> string) list" where
  "set_header k v hs = (k, v) # filter (\<lambda>kv. fst kv \<noteq> k) hs"

definition remove_header :: "string \<Rightarrow> (string \<times> string) list \<Rightarrow> (string \<times> string) list" where
  "remove_header k hs = filter (\<lambda>kv. fst kv \<noteq> k) hs"

text \<open>A header that a library sets only where the application has not.\<close>

definition default_header :: "string \<Rightarrow> string \<Rightarrow> (string \<times> string) list \<Rightarrow> (string \<times> string) list" where
  "default_header k v hs = (if map_of hs k = None then set_header k v hs else hs)"

text \<open>Decimal and hexadecimal text of a number.\<close>

fun digits :: "nat \<Rightarrow> string" where
  "digits n =
     (if n < 10 then [char_of (48 + n)]
      else digits (n div 10) @ [char_of (48 + n mod 10)])"

declare digits.simps [simp del]

fun hex :: "nat \<Rightarrow> string" where
  "hex n =
     (if n < 16 then [char_of (if n < 10 then 48 + n else 87 + n)]
      else hex (n div 16) @ [char_of (if n mod 16 < 10 then 48 + n mod 16 else 87 + n mod 16)])"

declare hex.simps [simp del]

subsection \<open>Conditional requests\<close>

text \<open>The tokens of a comma-separated header, without the spaces around them.\<close>

fun split_comma :: "string \<Rightarrow> string list" where
  "split_comma [] = [[]]"
| "split_comma (c # cs) =
     (if c = CHR '','' then [] # split_comma cs
      else (case split_comma cs of
              [] \<Rightarrow> [[c]]
            | s # ss \<Rightarrow> (c # s) # ss))"

definition trim :: "string \<Rightarrow> string" where
  "trim s = rev (dropWhile (\<lambda>c. c = CHR '' '') (rev (dropWhile (\<lambda>c. c = CHR '' '') s)))"

definition parseTokenList :: "string \<Rightarrow> string list" where
  "parseTokenList s = map trim (split_comma s)"

text \<open>An entity tag of the request matches the response's, weak or strong.\<close>

definition etag_matches :: "string \<Rightarrow> string \<Rightarrow> bool" where
  "etag_matches etag m = (m = etag \<or> m = ''W/'' @ etag \<or> ''W/'' @ m = etag)"

text \<open>Comparison of parsed dates; an invalid date compares false, as \<^verbatim>\<open>NaN\<close> does.\<close>

fun date_le :: "http_date \<Rightarrow> http_date \<Rightarrow> bool" where
  "date_le (Date a) (Date b) = (a \<le> b)"
| "date_le a b = False"

text \<open>
  The module \<^verbatim>\<open>fresh\<close>: whether the client's copy is still good, from the request
  and the response's \<^verbatim>\<open>ETag\<close> and \<^verbatim>\<open>Last-Modified\<close>.
\<close>

definition fresh :: "request \<Rightarrow> string option \<Rightarrow> http_date option \<Rightarrow> bool" where
  "fresh req etag modified =
     (if if_modified_since req = None \<and> if_none_match req = None then False
      else if no_cache req then False
      else if (case if_none_match req of
                 None \<Rightarrow> False
               | Some noneMatch \<Rightarrow>
                   noneMatch \<noteq> ''*'' \<and>
                   (case etag of
                      None \<Rightarrow> True
                    | Some e \<Rightarrow> \<not> list_ex (etag_matches e) (parseTokenList noneMatch)))
      then False
      else (case if_modified_since req of
              None \<Rightarrow> True
            | Some since \<Rightarrow>
                (case modified of None \<Rightarrow> False | Some m \<Rightarrow> date_le m since)))"

text \<open>
  Express's \<^verbatim>\<open>req.fresh\<close>: for GET and HEAD only, and for a status that is 2xx or
  304.
\<close>

definition req_fresh :: "http_method \<Rightarrow> request \<Rightarrow> response \<Rightarrow> bool" where
  "req_fresh m req res =
     ((m = GET \<or> m = HEAD)
      \<and> (200 \<le> statusCode res \<and> statusCode res < 300 \<or> statusCode res = 304)
      \<and> fresh req (map_of (headers res) ''ETag'') (map_option Date (lastModified res)))"

subsection \<open>\<^verbatim>\<open>res.send\<close>\<close>

text \<open>The media type with its charset parameter set to \<^verbatim>\<open>utf-8\<close>.\<close>

definition setCharset :: "string \<Rightarrow> string" where
  "setCharset t = takeWhile (\<lambda>c. c \<noteq> CHR '';'') t @ ''; charset=utf-8''"

text \<open>
  \<^verbatim>\<open>res.send(string)\<close> for a request with method \<open>m\<close>. It throws once the head
  has been written. Otherwise a string is HTML unless a type is set, and its
  charset is \<^verbatim>\<open>utf-8\<close>; the length and, where none is set, the entity tag of the
  body (\<open>etagFn\<close>, the application's setting, a hash) are added; a fresh request
  gets 304; a 204 or 304 loses the content headers and the body; a HEAD request
  gets no body.
\<close>

definition send ::
  "(string \<Rightarrow> string) \<Rightarrow> http_method \<Rightarrow> request \<Rightarrow> string \<Rightarrow> response \<Rightarrow> js_error + response" where
  "send etagFn m req text res =
     (if head_sent res \<noteq> None then Inl ERR_HTTP_HEADERS_SENT
      else
        let type = (case map_of (headers res) ''Content-Type'' of
                      None \<Rightarrow> ''text/html; charset=utf-8''
                    | Some t \<Rightarrow> setCharset t);
            h1 = set_header ''Content-Type'' type (headers res);
            h2 = set_header ''Content-Length'' (digits (length text)) h1;
            h3 = default_header ''ETag'' (etagFn text) h2;
            code = (if req_fresh m req (res\<lparr>headers := h3\<rparr>) then 304 else statusCode res);
            bare = (code = 204 \<or> code = 304);
            h4 = (if bare then remove_header ''Content-Type'' (remove_header ''Content-Length''
                                 (remove_header ''Transfer-Encoding'' h3))
                  else h3);
            chunk = (if bare \<or> m = HEAD then [] else text)
        in Inr (res\<lparr>statusCode := code, headers := h4, head_sent := Some (code, h4),
                     written := chunk, finished := True\<rparr>))"

subsection \<open>\<^verbatim>\<open>res.download\<close>\<close>

definition contentDisposition :: "string \<Rightarrow> string" where
  "contentDisposition name = ''attachment; filename='' @ [CHR 0x22] @ name @ [CHR 0x22]"

text \<open>
  What the runtime decides when a file is streamed: the files on disk at that
  moment (the child process and other requests have written them) with their
  modification times in milliseconds, and how the transfer goes once the file has
  been found: it reaches the end of the file, it breaks after the head and some
  bytes have been written, or it fails before anything is written (the file cannot
  be opened for reading).
\<close>

datatype stream_outcome = Stream_end | Stream_abort nat | Stream_fail

record world =
  files :: fs
  mtime :: "path \<Rightarrow> nat"
  stream :: stream_outcome

text \<open>
  The headers \<^verbatim>\<open>send\<close> sets once it has found the file: the disposition that
  \<^verbatim>\<open>res.download\<close> asks for and, where the application has set none,
  \<^verbatim>\<open>Accept-Ranges\<close>, \<^verbatim>\<open>Cache-Control\<close>, \<^verbatim>\<open>Last-Modified\<close>, the entity tag of the
  file (its size and modification time) and the media type of the path's
  extension. The one path the source downloads ends in \<^verbatim>\<open>.csv\<close>.
\<close>

definition file_etag :: "nat \<Rightarrow> nat \<Rightarrow> string" where
  "file_etag len modified = ''W/'' @ [CHR 0x22] @ hex len @ ''-'' @ hex modified @ [CHR 0x22]"

definition mime_type :: "path \<Rightarrow> string" where
  "mime_type p =
     (if suffix ''.csv'' p then ''text/csv; charset=UTF-8'' else ''application/octet-stream'')"

definition file_headers :: "world \<Rightarrow> path \<Rightarrow> string \<Rightarrow> bytes \<Rightarrow> response \<Rightarrow> response" where
  "file_headers w p name content res =
     (let h1 = set_header ''Content-Disposition'' (contentDisposition name) (headers res);
          h2 = default_header ''Accept-Ranges'' ''bytes'' h1;
          h3 = default_header ''Cache-Control'' ''public, max-age=0'' h2;
          h4 = default_header ''ETag'' (file_etag (length content) (mtime w p)) h3;
          h5 = default_header ''Content-Type'' (mime_type p) h4
      in res\<lparr>headers := h5,
              lastModified := (case lastModified res of
                                 None \<Rightarrow> Some (mtime w p div 1000 * 1000)
                               | Some t \<Rightarrow> Some t)\<rparr>)"

text \<open>
  A request is conditional when it has one of the four validators. Its
  precondition fails when \<^verbatim>\<open>If-Match\<close> names no tag of the file or, without
  \<^verbatim>\<open>If-Match\<close>, when the file is newer than \<^verbatim>\<open>If-Unmodified-Since\<close>.
\<close>

definition is_conditional :: "request \<Rightarrow> bool" where
  "is_conditional req =
     (if_match req \<noteq> None \<or> if_unmodified_since req \<noteq> None
      \<or> if_none_match req \<noteq> None \<or> if_modified_since req \<noteq> None)"

definition precondition_failure :: "request \<Rightarrow> string option \<Rightarrow> http_date option \<Rightarrow> bool" where
  "precondition_failure req etag modified =
     (case if_match req of
        Some match \<Rightarrow>
          (case etag of
             None \<Rightarrow> True
           | Some e \<Rightarrow> match \<noteq> ''*'' \<and> \<not> list_ex (etag_matches e) (parseTokenList match))
      | None \<Rightarrow>
          (case if_unmodified_since req of
             Some (Date since) \<Rightarrow>
               (case modified of Some (Date m) \<Rightarrow> since < m | _ \<Rightarrow> True)
           | _ \<Rightarrow> False))"

text \<open>
  The module \<^verbatim>\<open>range-parser\<close> with \<^verbatim>\<open>combine\<close>. A range with no first number
  counts from the end; the last byte is cut to the size; a range that is empty or
  starts before the file is dropped. No range left is unsatisfiable. The ranges
  are merged where they overlap or touch.
\<close>

definition spec_range :: "int \<Rightarrow> nat option \<times> nat option \<Rightarrow> (nat \<times> nat) option" where
  "spec_range len spec =
     (case (case spec of
              (None, None) \<Rightarrow> None
            | (None, Some e) \<Rightarrow> Some (len - int e, len - 1)
            | (Some s, None) \<Rightarrow> Some (int s, len - 1)
            | (Some s, Some e) \<Rightarrow> Some (int s, int e)) of
        None \<Rightarrow> None
      | Some (first, final) \<Rightarrow>
          (let final' = min final (len - 1)
           in if final' < first \<or> first < 0 then None else Some (nat first, nat final')))"

fun merge_ranges :: "(nat \<times> nat) list \<Rightarrow> (nat \<times> nat) list" where
  "merge_ranges [] = []"
| "merge_ranges [r] = [r]"
| "merge_ranges ((s1, e1) # (s2, e2) # rs) =
     (if e1 + 1 < s2 then (s1, e1) # merge_ranges ((s2, e2) # rs)
      else merge_ranges ((s1, max e1 e2) # rs))"

definition combineRanges :: "(nat \<times> nat) list \<Rightarrow> (nat \<times> nat) list" where
  "combineRanges rs = merge_ranges (sort_key fst rs)"

datatype range_result = Unsatisfiable | Ranges "(nat \<times> nat) list"

definition parseRange :: "nat \<Rightarrow> (nat option \<times> nat option) list \<Rightarrow> range_result" where
  "parseRange len specs =
     (case List.map_filter (spec_range (int len)) specs of
        [] \<Rightarrow> Unsatisfiable
      | r # rs \<Rightarrow> Ranges (combineRanges (r # rs)))"

text \<open>\<^verbatim>\<open>If-Range\<close>: the range is honoured only for the file the client knows.\<close>

definition range_fresh :: "request \<Rightarrow> string option \<Rightarrow> http_date option \<Rightarrow> bool" where
  "range_fresh req etag modified =
     (case if_range req of
        None \<Rightarrow> True
      | Some (Range_etag tags) \<Rightarrow> (case etag of None \<Rightarrow> False | Some e \<Rightarrow> sublist e tags)
      | Some (Range_date d) \<Rightarrow> (case modified of None \<Rightarrow> False | Some m \<Rightarrow> date_le m d))"

text \<open>The part of the file to send: none that can be, one range, or the whole.\<close>

datatype selection = No_range | One_range nat nat | Whole

definition select_range :: "request \<Rightarrow> string option \<Rightarrow> http_date option \<Rightarrow> nat \<Rightarrow> selection" where
  "select_range req etag modified len =
     (case bytes_range req of
        None \<Rightarrow> Whole
      | Some specs \<Rightarrow>
          if \<not> range_fresh req etag modified then Whole
          else (case parseRange len specs of
                  Unsatisfiable \<Rightarrow> No_range
                | Ranges [(s, e)] \<Rightarrow> One_range s e
                | Ranges rs \<Rightarrow> Whole))"

text \<open>Writing the head and the bytes, as the transfer goes.\<close>

definition transfer :: "world \<Rightarrow> bytes \<Rightarrow> response \<Rightarrow> response \<times> js_error option" where
  "transfer w body res =
     (case stream w of
        Stream_fail \<Rightarrow> (res, Some (SendError ''EACCES''))
      | Stream_end \<Rightarrow>
          (res\<lparr>head_sent := Some (statusCode res, headers res),
                written := body, finished := True\<rparr>, None)
      | Stream_abort n \<Rightarrow>
          (res\<lparr>head_sent := Some (statusCode res, headers res),
                written := take n body\<rparr>, Some (SendError ''ECONNABORTED'')))"

definition not_modified :: "response \<Rightarrow> response" where
  "not_modified res =
     (let hs = remove_header ''Content-Encoding'' (remove_header ''Content-Language''
                 (remove_header ''Content-Length'' (remove_header ''Content-Range''
                   (remove_header ''Content-Type'' (headers res)))))
      in res\<lparr>statusCode := 304, headers := hs, head_sent := Some (304, hs),
              written := [], finished := True\<rparr>)"

text \<open>
  What \<^verbatim>\<open>send\<close> answers once the file is found and its headers are set. The
  validators and the range are read from the request whatever its method is. A
  failed precondition (412) and a range that cannot be satisfied (416) are
  reported to the callback with nothing written; a fresh request gets 304 with no
  body; one range gets 206 with that part of the file.
\<close>

definition respond :: "world \<Rightarrow> request \<Rightarrow> bytes \<Rightarrow> response \<Rightarrow> response \<times> js_error option" where
  "respond w req content res =
     (let etag = map_of (headers res) ''ETag'';
          modified = map_option Date (lastModified res);
          len = length content
      in if is_conditional req \<and> precondition_failure req etag modified
           then (res, Some (SendError ''PreconditionFailed''))
         else if is_conditional req
                 \<and> (200 \<le> statusCode res \<and> statusCode res < 300 \<or> statusCode res = 304)
                 \<and> fresh req etag modified
           then (not_modified res, None)
         else (case select_range req etag modified len of
                 No_range \<Rightarrow>
                   (res\<lparr>headers := set_header ''Content-Range'' (''bytes */'' @ digits len)
                                      (headers res)\<rparr>,
                    Some (SendError ''RangeNotSatisfiable''))
               | One_range s e \<Rightarrow>
                   transfer w (take (e + 1 - s) (drop s content))
                     (res\<lparr>statusCode := 206,
                           headers := set_header ''Content-Length'' (digits (e + 1 - s))
                             (set_header ''Content-Range''
                                (''bytes '' @ digits s @ ''-'' @ digits e @ ''/'' @ digits len)
                                (headers res))\<rparr>)
               | Whole \<Rightarrow>
                   transfer w content
                     (res\<lparr>headers := set_header ''Content-Length'' (digits len) (headers res)\<rparr>)))"

text \<open>
  \<^verbatim>\<open>res.download(path, filename, callback)\<close> for the request \<open>req\<close>. The result is
  the response and the argument the callback gets (\<open>None\<close> for \<^verbatim>\<open>undefined\<close>). A
  file that is not there is reported with nothing set and nothing written.
\<close>

definition download ::
  "world \<Rightarrow> request \<Rightarrow> path \<Rightarrow> string \<Rightarrow> response \<Rightarrow> response \<times> js_error option" where
  "download w req p name res =
     (case files w p of
        None \<Rightarrow> (res, Some (SendError ''ENOENT''))
      | Some content \<Rightarrow>
          if head_sent res \<noteq> None then (res, Some (SendError ''ERR_HTTP_HEADERS_SENT''))
          else respond w req content (file_headers w p name content res))"

subsection \<open>\<^verbatim>\<open>GET /\<close>\<close>

definition form_html :: string where
  \<open>form_html =
     ''\<newline>    <h1>Neosemo CSV Processor</h1>'' @
     ''\<newline>    <form action="/upload" method="POST" enctype="multipart/form-data">'' @
     ''\<newline>      <input type="file" name="csvFile" accept=".csv" />'' @
     ''\<newline>      <button type="submit">Upload & Process</button>'' @
     ''\<newline>    </form>'' @
     ''\<newline>  ''\<close>

text \<open>The handler of lines 17 to 25; \<open>m\<close> is GET or HEAD.\<close>

definition get_root ::
  "(string \<Rightarrow> string) \<Rightarrow> http_method \<Rightarrow> request \<Rightarrow> response \<Rightarrow> js_error + response" where
  "get_root etagFn m req res = send etagFn m req form_html res"

subsection \<open>\<^verbatim>\<open>POST /upload\<close>\<close>

record spawn_call =
  command :: string
  args :: "string list"

datatype console_line =
    Console_log string
  | Console_error string "js_error option"

text \<open>
  A request in flight: the request and its response, the child that was spawned
  for it, the lines written to the console, and the exception that escaped a
  callback, if one did.
\<close>

record conn =
  req :: request
  res :: response
  child :: spawn_call
  console :: "console_line list"
  uncaught :: "js_error option"

definition outputFile :: "path \<Rightarrow> path" where
  "outputFile dirname = path_join [dirname, ''uploads'', ''processed.csv'']"

definition pythonScriptPath :: "path \<Rightarrow> path" where
  "pythonScriptPath dirname = path_join [dirname, ''run_dealerships.py'']"

text \<open>
  The synchronous part of the handler (lines 28 to 43). \<open>dirname\<close> is the module's
  \<^verbatim>\<open>__dirname\<close>. Reading \<^verbatim>\<open>req.file.path\<close> throws when \<^verbatim>\<open>req.file\<close> is undefined,
  before anything is spawned.
\<close>

definition upload_handler :: "path \<Rightarrow> request \<Rightarrow> js_error + conn" where
  "upload_handler dirname rq =
     (case req_file rq of
        None \<Rightarrow> Inl (TypeError ''cannot read property path of undefined'')
      | Some f \<Rightarrow>
          let inputFile = path f
          in Inr \<lparr>req = rq,
                  res = new_response,
                  child = \<lparr>command = ''python3'',
                           args = [pythonScriptPath dirname, inputFile, outputFile dirname]\<rparr>,
                  console = [],
                  uncaught = None\<rparr>)"

text \<open>Text of the exit code, as the template literal prints it.\<close>

definition string_of_code :: "int option \<Rightarrow> string" where
  "string_of_code code =
     (case code of
        None \<Rightarrow> ''null''
      | Some n \<Rightarrow> (if n < 0 then ''-'' @ digits (nat (- n)) else digits (nat n)))"

text \<open>
  The \<^verbatim>\<open>'close'\<close> callback (lines 56 to 69). \<open>code\<close> is the exit code, \<open>None\<close>
  for \<^verbatim>\<open>null\<close> (the child was ended by a signal); \<^verbatim>\<open>code === 0\<close> holds for the
  number 0 only. An exception thrown by \<^verbatim>\<open>send\<close> is not caught by the source.
\<close>

definition fail_with :: "(string \<Rightarrow> string) \<Rightarrow> string \<Rightarrow> conn \<Rightarrow> conn" where
  "fail_with etagFn text c =
     (case send etagFn POST (req c) text (status 500 (res c)) of
        Inr r \<Rightarrow> c\<lparr>res := r\<rparr>
      | Inl e \<Rightarrow> c\<lparr>res := status 500 (res c), uncaught := Some e\<rparr>)"

definition on_close :: "path \<Rightarrow> (string \<Rightarrow> string) \<Rightarrow> world \<Rightarrow> int option \<Rightarrow> conn \<Rightarrow> conn" where
  "on_close dirname etagFn w code c =
     (let c1 = c\<lparr>console := console c
                   @ [Console_log (''Python script exited with code '' @ string_of_code code)]\<rparr>
      in if code = Some 0 then
           (case download w (req c1) (outputFile dirname) ''processed.csv'' (res c1) of
              (r, None) \<Rightarrow> c1\<lparr>res := r\<rparr>
            | (r, Some err) \<Rightarrow>
                fail_with etagFn ''Error downloading processed file.''
                  (c1\<lparr>res := r,
                      console := console c1 @ [Console_error ''Error sending file:'' (Some err)]\<rparr>))
         else fail_with etagFn ''Python script failed.'' c1)"

text \<open>The events the source listens to on the child.\<close>

datatype event =
    Stdout_data string
  | Stderr_data string
  | Close "int option"

fun is_close :: "event \<Rightarrow> bool" where
  "is_close (Close code) = True"
| "is_close e = False"

fun on_event :: "path \<Rightarrow> (string \<Rightarrow> string) \<Rightarrow> world \<Rightarrow> event \<Rightarrow> conn \<Rightarrow> conn" where
  "on_event dirname etagFn w (Stdout_data d) c =
     c\<lparr>console := console c @ [Console_log (''Python STDOUT: '' @ d)]\<rparr>"
| "on_event dirname etagFn w (Stderr_data d) c =
     c\<lparr>console := console c @ [Console_error (''Python STDERR: '' @ d) None]\<rparr>"
| "on_event dirname etagFn w (Close code) c = on_close dirname etagFn w code c"

text \<open>
  The events of one request, each with the world at the moment it is delivered.
  An exception that escapes a callback ends the server process: nothing is
  delivered after it.
\<close>

fun run :: "path \<Rightarrow> (string \<Rightarrow> string) \<Rightarrow> (world \<times> event) list \<Rightarrow> conn \<Rightarrow> conn" where
  "run dirname etagFn [] c = c"
| "run dirname etagFn ((w, e) # evs) c =
     (if uncaught c \<noteq> None then c else run dirname etagFn evs (on_event dirname etagFn w e c))"

text \<open>
  The route: the middleware, then the handler. An error of either goes to
  Express's error handling; the relay has spawned nothing and written nothing.
\<close>

definition post_upload ::
  "path \<Rightarrow> string \<Rightarrow> request \<Rightarrow> part list \<Rightarrow> fs \<Rightarrow> js_error + (conn \<times> fs)" where
  "post_upload dirname gen rq parts disk =
     (case single upload ''csvFile'' gen rq parts disk of
        Inl e \<Rightarrow> Inl e
      | Inr (rq', disk') \<Rightarrow>
          (case upload_handler dirname rq' of
             Inl e \<Rightarrow> Inl e
           | Inr c \<Rightarrow> Inr (c, disk')))"

text \<open>A list of events in which the child has not closed: output on its pipes only.\<close>

definition quiet :: "(world \<times> event) list \<Rightarrow> bool" where
  "quiet evs = list_all (\<lambda>we. \<not> is_close (snd we)) evs"

subsection \<open>Shapes of request bodies and of installation paths\<close>

text \<open>
  A text field that multer accepts, with a name of 1 to 100 bytes and a value
  below \<open>fieldSize\<close>; and a part that puts a file into field \<open>name\<close>: one
  whose base name is not empty.
\<close>

fun is_field :: "part \<Rightarrow> bool" where
  "is_field (Field_part k v) = (k \<noteq> [] \<and> length k \<le> 100 \<and> length v < fieldSize)"
| "is_field (File_part fld fname content) = False"

fun names_file :: "string \<Rightarrow> part \<Rightarrow> bool" where
  "names_file name (File_part fld fname content) = (fld = name \<and> basename fname \<noteq> [])"
| "names_file name (Field_part k v) = False"

text \<open>
  The invariant of multer's loop: the file recorded so far, if any, lies at \<open>p\<close>
  and the disk holds it there.
\<close>

definition stored_at :: "path \<Rightarrow> multer_file option \<times> fs \<Rightarrow> bool" where
  "stored_at p st =
     (case fst st of None \<Rightarrow> True | Some f \<Rightarrow> path f = p \<and> snd st p \<noteq> None)"

text \<open>
  A normalised absolute directory: \<^verbatim>\<open>/\<close> before each of its segments, none of
  which is empty, \<^verbatim>\<open>.\<close> or \<^verbatim>\<open>..\<close>, or holds a slash.
\<close>

definition plain :: "string \<Rightarrow> bool" where
  "plain s = (s \<noteq> [] \<and> CHR ''/'' \<notin> set s \<and> s \<noteq> ''.'' \<and> s \<noteq> ''..'')"

definition abs_path :: "string list \<Rightarrow> path" where
  "abs_path segs = concat (map (\<lambda>s. CHR ''/'' # s) segs)"

text \<open>A request with no validator and no \<^verbatim>\<open>Range\<close>: \<^verbatim>\<open>send\<close> answers it in full.\<close>

definition unconditional :: "request \<Rightarrow> bool" where
  "unconditional rq = (\<not> is_conditional rq \<and> bytes_range rq = None)"

text \<open>
  Whether the request knows the entity tag \<open>etag\<close>: its \<^verbatim>\<open>If-None-Match\<close> is
  \<^verbatim>\<open>*\<close> or lists the tag. A request that knows the tag of a body with no
  modification time, and has no \<^verbatim>\<open>If-Modified-Since\<close> and no \<^verbatim>\<open>no-cache\<close>,
  revalidates its copy: it is told that nothing has changed.
\<close>

definition tag_known :: "request \<Rightarrow> string \<Rightarrow> bool" where
  "tag_known rq etag =
     (case if_none_match rq of
        None \<Rightarrow> False
      | Some noneMatch \<Rightarrow>
          noneMatch = ''*'' \<or> list_ex (etag_matches etag) (parseTokenList noneMatch))"

definition revalidates :: "request \<Rightarrow> string \<Rightarrow> bool" where
  "revalidates rq etag = (tag_known rq etag \<and> if_modified_since rq = None \<and> \<not> no_cache rq)"

subsection \<open>A sample request\<close>

text \<open>
  A server installed in \<^verbatim>\<open>/srv/app\<close>, a request with none of the headers above,
  and an upload that multer stored as \<^verbatim>\<open>uploads/0a1b2c\<close>: the inputs at which the
  theorems below are instantiated. \<open>sample_etag\<close> stands for the hash that
  Express computes for a body.
\<close>

definition bare_request :: request where
  "bare_request =
     \<lparr>if_match = None, if_none_match = None, if_modified_since = None,
      if_unmodified_since = None, if_range = None, bytes_range = None, no_cache = False,
      req_file = None\<rparr>"

definition sample_file :: multer_file where
  "sample_file =
     \<lparr>fieldname = ''csvFile'', originalname = ''dealers.txt'', destination = ''uploads/'',
      filename = ''0a1b2c'', path = ''uploads/0a1b2c'', size_bytes = 5\<rparr>"

definition sample_conn :: "request \<Rightarrow> conn" where
  "sample_conn rq =
     \<lparr>req = rq\<lparr>req_file := Some sample_file\<rparr>,
      res = new_response,
      child = \<lparr>command = ''python3'',
               args = [''/srv/app/run_dealerships.py'', ''uploads/0a1b2c'',
                       ''/srv/app/uploads/processed.csv'']\<rparr>,
      console = [],
      uncaught = None\<rparr>"

text \<open>A second upload to the same server, with another name, body and header.\<close>

definition other_conn :: conn where
  "other_conn =
     \<lparr>req = bare_request\<lparr>no_cache := True,
              req_file := Some \<lparr>fieldname = ''csvFile'', originalname = ''other.csv'',
                                 destination = ''uploads/'', filename = ''ffee'',
                                 path = ''uploads/ffee'', size_bytes = 1\<rparr>\<rparr>,
      res = new_response,
      child = \<lparr>command = ''python3'',
               args = [''/srv/app/run_dealerships.py'', ''uploads/ffee'',
                       ''/srv/app/uploads/processed.csv'']\<rparr>,
      console = [],
      uncaught = None\<rparr>"

definition sample_etag :: "string \<Rightarrow> string" where
  "sample_etag body = ''W/'' @ [CHR 0x22] @ hex (length body) @ ''-hash'' @ [CHR 0x22]"

text \<open>
  A disk on which the output file exists, with the outcome of the transfer left
  open; a disk with no output file; and a body with a text field and an upload
  whose name does not end in \<^verbatim>\<open>.csv\<close>.
\<close>

definition sample_world :: "stream_outcome \<Rightarrow> world" where
  "sample_world s =
     \<lparr>files = [''/srv/app/uploads/processed.csv'' \<mapsto> ''dealer,url''],
      mtime = (\<lambda>p. 4660), stream = s\<rparr>"

definition empty_world :: world where
  "empty_world = \<lparr>files = Map.empty, mtime = (\<lambda>p. 0), stream = Stream_end\<rparr>"

definition sample_parts :: "part list" where
  "sample_parts = [Field_part ''note'' ''weekly'', File_part ''csvFile'' ''dealers.txt'' ''a,b,c'']"

section \<open>Properties\<close>

subsection \<open>Basic facts about the handler and the event loop\<close>

lemma outputFile_sample: "outputFile ''/srv/app'' = ''/srv/app/uploads/processed.csv''"
  by (simp add: outputFile_def path_join_def path_normalize_def)

lemma pythonScriptPath_sample: "pythonScriptPath ''/srv/app'' = ''/srv/app/run_dealerships.py''"
  by (simp add: pythonScriptPath_def path_join_def path_normalize_def)

lemma upload_handler_sample:
  "upload_handler ''/srv/app'' (rq\<lparr>req_file := Some sample_file\<rparr>) = Inr (sample_conn rq)"
  by (simp add: upload_handler_def sample_file_def sample_conn_def
      outputFile_sample pythonScriptPath_sample)

lemma basename_sample: "basename ''dealers.txt'' = ''dealers.txt''"
  by (simp add: basename_def)

lemma post_upload_sample:
  "post_upload ''/srv/app'' ''0a1b2c'' rq sample_parts Map.empty
     = Inr (sample_conn rq, [''uploads/0a1b2c'' \<mapsto> ''a,b,c''])"
  by (simp add: post_upload_def single_def sample_parts_def upload_def includeFile_def Let_def
      path_join_def path_normalize_def upload_handler_def sample_conn_def sample_file_def
      outputFile_sample pythonScriptPath_sample basename_sample fieldSize_def)

lemma upload_handler_Inr:
  "upload_handler dirname rq = Inr c \<Longrightarrow>
     req c = rq \<and> res c = new_response \<and> uncaught c = None \<and> console c = [] \<and>
     (\<exists>f. req_file rq = Some f \<and>
        child c = \<lparr>command = ''python3'',
                    args = [pythonScriptPath dirname, path f, outputFile dirname]\<rparr>)"
  by (auto simp: upload_handler_def split: option.splits)

lemma run_crashed: "uncaught c \<noteq> None \<Longrightarrow> run dirname etagFn evs c = c"
  by (cases evs) auto

lemma run_append:
  "run dirname etagFn (xs @ ys) c = run dirname etagFn ys (run dirname etagFn xs c)"
proof (induction xs arbitrary: c)
  case Nil
  show ?case by simp
next
  case (Cons x xs)
  obtain w e where x: "x = (w, e)" by (cases x)
  show ?case
  proof (cases "uncaught c = None")
    case True
    with Cons x show ?thesis by simp
  next
    case False
    then show ?thesis by (simp add: x run_crashed)
  qed
qed

lemma on_event_quiet:
  "\<not> is_close e \<Longrightarrow>
     res (on_event dirname etagFn w e c) = res c
     \<and> uncaught (on_event dirname etagFn w e c) = uncaught c
     \<and> child (on_event dirname etagFn w e c) = child c
     \<and> req (on_event dirname etagFn w e c) = req c"
  by (cases e) simp_all

lemma run_quiet:
  "quiet evs \<Longrightarrow>
     res (run dirname etagFn evs c) = res c
     \<and> uncaught (run dirname etagFn evs c) = uncaught c
     \<and> child (run dirname etagFn evs c) = child c
     \<and> req (run dirname etagFn evs c) = req c"
proof (induction evs arbitrary: c)
  case Nil
  show ?case by simp
next
  case (Cons x evs)
  obtain w e where x: "x = (w, e)" by (cases x)
  from Cons.prems x have e: "\<not> is_close e" and q: "quiet evs"
    by (simp_all add: quiet_def)
  show ?case
    using Cons.IH [OF q, of "on_event dirname etagFn w e c"]
      on_event_quiet [OF e, of dirname etagFn w c]
    by (simp add: x)
qed

lemma run_close_last:
  assumes "quiet evs" and "uncaught c = None"
  shows "res (run dirname etagFn (evs @ [(w, Close code)]) c)
           = res (on_close dirname etagFn w code (run dirname etagFn evs c))"
    and "uncaught (run dirname etagFn (evs @ [(w, Close code)]) c)
           = uncaught (on_close dirname etagFn w code (run dirname etagFn evs c))"
  using run_quiet [OF assms(1), of dirname etagFn c] assms(2)
  by (simp_all add: run_append)

text \<open>Header lists.\<close>

lemma map_of_remove_header:
  "map_of (remove_header k hs) k' = (if k' = k then None else map_of hs k')"
  by (induction hs) (auto simp: remove_header_def)

lemma map_of_set_header:
  "map_of (set_header k v hs) k' = (if k' = k then Some v else map_of hs k')"
  using map_of_remove_header [of k hs k']
  by (simp add: set_header_def remove_header_def)

lemma map_of_default_header:
  "map_of (default_header k v hs) k' =
     (if k' = k \<and> map_of hs k = None then Some v else map_of hs k')"
  by (simp add: default_header_def map_of_set_header)

text \<open>\<^verbatim>\<open>res.status(500).send(text)\<close> on the upload route.\<close>

lemma req_fresh_POST: "\<not> req_fresh POST rq r"
  by (simp add: req_fresh_def)

lemma send_500:
  assumes "head_sent r = None"
  shows "\<exists>r'. send etagFn POST rq text (status 500 r) = Inr r'
           \<and> sent_status r' = Some 500 \<and> written r' = text \<and> finished r'
           \<and> sent_header ''Content-Type'' r'
               = Some (case map_of (headers r) ''Content-Type'' of
                         None \<Rightarrow> ''text/html; charset=utf-8''
                       | Some t \<Rightarrow> setCharset t)
           \<and> sent_header ''Content-Disposition'' r' = map_of (headers r) ''Content-Disposition''"
  using assms
  by (simp add: send_def status_def Let_def req_fresh_POST sent_status_def sent_header_def
      map_of_default_header map_of_set_header)

lemma fail_with_fresh:
  assumes "head_sent (res c) = None"
  shows "sent_status (res (fail_with etagFn text c)) = Some 500
       \<and> written (res (fail_with etagFn text c)) = text
       \<and> finished (res (fail_with etagFn text c))
       \<and> sent_header ''Content-Type'' (res (fail_with etagFn text c))
           = Some (case map_of (headers (res c)) ''Content-Type'' of
                     None \<Rightarrow> ''text/html; charset=utf-8''
                   | Some t \<Rightarrow> setCharset t)
       \<and> sent_header ''Content-Disposition'' (res (fail_with etagFn text c))
           = map_of (headers (res c)) ''Content-Disposition''
       \<and> uncaught (fail_with etagFn text c) = uncaught c"
proof -
  from send_500 [OF assms, of etagFn "req c" "text"] obtain r'
    where "send etagFn POST (req c) text (status 500 (res c)) = Inr r'"
      and "sent_status r' = Some 500 \<and> written r' = text \<and> finished r'
           \<and> sent_header ''Content-Type'' r'
               = Some (case map_of (headers (res c)) ''Content-Type'' of
                         None \<Rightarrow> ''text/html; charset=utf-8''
                       | Some t \<Rightarrow> setCharset t)
           \<and> sent_header ''Content-Disposition'' r' = map_of (headers (res c)) ''Content-Disposition''"
    by blast
  then show ?thesis by (simp add: fail_with_def)
qed

lemma fail_with_sent:
  "head_sent (res c) \<noteq> None \<Longrightarrow>
     res (fail_with etagFn text c) = (res c)\<lparr>statusCode := 500\<rparr>
     \<and> uncaught (fail_with etagFn text c) = Some ERR_HTTP_HEADERS_SENT"
  by (auto simp add: fail_with_def send_def status_def)

lemma on_close_failure:
  assumes "code \<noteq> Some 0" "head_sent (res c) = None"
  shows "sent_status (res (on_close dirname etagFn w code c)) = Some 500
       \<and> written (res (on_close dirname etagFn w code c)) = ''Python script failed.''
       \<and> finished (res (on_close dirname etagFn w code c))
       \<and> sent_header ''Content-Type'' (res (on_close dirname etagFn w code c))
           = Some (case map_of (headers (res c)) ''Content-Type'' of
                     None \<Rightarrow> ''text/html; charset=utf-8''
                   | Some t \<Rightarrow> setCharset t)
       \<and> uncaught (on_close dirname etagFn w code c) = uncaught c"
proof -
  let ?c1 = "c\<lparr>console := console c
                   @ [Console_log (''Python script exited with code '' @ string_of_code code)]\<rparr>"
  have "head_sent (res ?c1) = None" using assms(2) by simp
  from fail_with_fresh [OF this, of etagFn "''Python script failed.''"] assms(1)
  show ?thesis by (simp add: on_close_def Let_def)
qed

subsection \<open>Facts about the download\<close>

lemma file_headers_keeps:
  "head_sent (file_headers w p name content r) = head_sent r
   \<and> statusCode (file_headers w p name content r) = statusCode r
   \<and> map_of (headers (file_headers w p name content r)) ''Content-Disposition''
       = Some (contentDisposition name)"
  by (simp add: file_headers_def Let_def map_of_default_header map_of_set_header)

lemma transfer_cases:
  assumes "head_sent r = None"
  shows "(snd (transfer w body r) = None \<longrightarrow> head_sent (fst (transfer w body r)) \<noteq> None)
       \<and> (head_sent (fst (transfer w body r)) = None
            \<or> head_sent (fst (transfer w body r)) = Some (statusCode r, headers r))
       \<and> headers (fst (transfer w body r)) = headers r"
  using assms by (cases "stream w") (simp_all add: transfer_def)

lemma transfer_end:
  "stream w = Stream_end \<Longrightarrow>
     transfer w body r
       = (r\<lparr>head_sent := Some (statusCode r, headers r), written := body, finished := True\<rparr>, None)"
  by (simp add: transfer_def)

lemma not_modified_head:
  "head_sent (not_modified r) \<noteq> None \<and> sent_status (not_modified r) = Some 304
   \<and> written (not_modified r) = [] \<and> finished (not_modified r)
   \<and> map_of (headers (not_modified r)) ''Content-Disposition''
       = map_of (headers r) ''Content-Disposition''"
  by (simp add: not_modified_def Let_def sent_status_def map_of_remove_header)

lemma respond_cases:
  assumes "head_sent r = None"
  shows "(snd (respond w rq content r) = None \<longrightarrow> head_sent (fst (respond w rq content r)) \<noteq> None)
       \<and> (sent_status (fst (respond w rq content r)) = None
            \<or> sent_status (fst (respond w rq content r)) = Some (statusCode r)
            \<or> sent_status (fst (respond w rq content r)) = Some 206
            \<or> sent_status (fst (respond w rq content r)) = Some 304)
       \<and> map_of (headers (fst (respond w rq content r))) ''Content-Disposition''
           = map_of (headers r) ''Content-Disposition''"
proof -
  let ?etag = "map_of (headers r) ''ETag''"
  let ?modified = "map_option Date (lastModified r)"
  consider (failed) "is_conditional rq \<and> precondition_failure rq ?etag ?modified"
    | (cached) "\<not> (is_conditional rq \<and> precondition_failure rq ?etag ?modified)"
        "is_conditional rq
           \<and> (200 \<le> statusCode r \<and> statusCode r < 300 \<or> statusCode r = 304)
           \<and> fresh rq ?etag ?modified"
    | (body) "\<not> (is_conditional rq \<and> precondition_failure rq ?etag ?modified)"
        "\<not> (is_conditional rq
           \<and> (200 \<le> statusCode r \<and> statusCode r < 300 \<or> statusCode r = 304)
           \<and> fresh rq ?etag ?modified)"
    by blast
  then show ?thesis
  proof cases
    case failed
    then have "respond w rq content r = (r, Some (SendError ''PreconditionFailed''))"
      by (simp only: respond_def Let_def if_True simp_thms)
    with assms show ?thesis by (simp add: sent_status_def)
  next
    case cached
    then have "respond w rq content r = (not_modified r, None)"
      by (simp only: respond_def Let_def if_True if_False simp_thms)
    with not_modified_head [of r] show ?thesis by simp
  next
    case body
    then have eq: "respond w rq content r =
        (case select_range rq ?etag ?modified (length content) of
           No_range \<Rightarrow>
             (r\<lparr>headers := set_header ''Content-Range'' (''bytes */'' @ digits (length content))
                                (headers r)\<rparr>,
              Some (SendError ''RangeNotSatisfiable''))
         | One_range s e \<Rightarrow>
             transfer w (take (e + 1 - s) (drop s content))
               (r\<lparr>statusCode := 206,
                   headers := set_header ''Content-Length'' (digits (e + 1 - s))
                     (set_header ''Content-Range''
                        (''bytes '' @ digits s @ ''-'' @ digits e @ ''/'' @ digits (length content))
                        (headers r))\<rparr>)
         | Whole \<Rightarrow>
             transfer w content
               (r\<lparr>headers := set_header ''Content-Length'' (digits (length content)) (headers r)\<rparr>))"
      by (simp only: respond_def Let_def if_False simp_thms)
    show ?thesis
    proof (cases "select_range rq ?etag ?modified (length content)")
      case No_range
      with assms show ?thesis
        by (simp add: eq sent_status_def map_of_set_header)
    next
      case (One_range s e)
      let ?r = "r\<lparr>statusCode := 206,
                   headers := set_header ''Content-Length'' (digits (e + 1 - s))
                     (set_header ''Content-Range''
                        (''bytes '' @ digits s @ ''-'' @ digits e @ ''/'' @ digits (length content))
                        (headers r))\<rparr>"
      have "head_sent ?r = None" using assms by simp
      from transfer_cases [OF this, of w "take (e + 1 - s) (drop s content)"] One_range
      show ?thesis
        by (auto simp add: eq sent_status_def map_of_set_header)
    next
      case Whole
      let ?r = "r\<lparr>headers := set_header ''Content-Length'' (digits (length content)) (headers r)\<rparr>"
      have "head_sent ?r = None" using assms by simp
      from transfer_cases [OF this, of w content] Whole
      show ?thesis
        by (auto simp add: eq sent_status_def map_of_set_header)
    qed
  qed
qed

lemma download_cases:
  assumes "head_sent r = None"
  shows "(snd (download w rq p name r) = None \<longrightarrow> head_sent (fst (download w rq p name r)) \<noteq> None)
       \<and> (sent_status (fst (download w rq p name r)) = None
            \<or> sent_status (fst (download w rq p name r)) = Some (statusCode r)
            \<or> sent_status (fst (download w rq p name r)) = Some 206
            \<or> sent_status (fst (download w rq p name r)) = Some 304)
       \<and> (files w p \<noteq> None \<longrightarrow>
            map_of (headers (fst (download w rq p name r))) ''Content-Disposition''
              = Some (contentDisposition name))"
proof (cases "files w p")
  case None
  with assms show ?thesis by (simp add: download_def sent_status_def)
next
  case (Some content)
  let ?r = "file_headers w p name content r"
  from file_headers_keeps [of w p name content r] assms
  have "head_sent ?r = None" "statusCode ?r = statusCode r"
    "map_of (headers ?r) ''Content-Disposition'' = Some (contentDisposition name)"
    by simp_all
  with respond_cases [of ?r w rq content] Some assms show ?thesis
    by (simp add: download_def)
qed

lemma download_missing:
  "files w p = None \<Longrightarrow> download w rq p name r = (r, Some (SendError ''ENOENT''))"
  by (simp add: download_def)

lemma download_sent:
  "head_sent r \<noteq> None \<Longrightarrow>
     fst (download w rq p name r) = r \<and> snd (download w rq p name r) \<noteq> None"
  by (auto simp: download_def split: option.splits)

lemma select_range_none: "bytes_range rq = None \<Longrightarrow> select_range rq etag modified len = Whole"
  by (simp add: select_range_def)

lemma download_whole:
  assumes "files w p = Some content" "stream w = Stream_end" "head_sent r = None"
    "unconditional rq"
  shows "snd (download w rq p name r) = None
       \<and> sent_status (fst (download w rq p name r)) = Some (statusCode r)
       \<and> sent_header ''Content-Disposition'' (fst (download w rq p name r))
           = Some (contentDisposition name)
       \<and> written (fst (download w rq p name r)) = content
       \<and> finished (fst (download w rq p name r))"
proof -
  let ?r = "file_headers w p name content r"
  from file_headers_keeps [of w p name content r]
  have cd: "map_of (headers ?r) ''Content-Disposition'' = Some (contentDisposition name)"
    by simp
  from assms(4) have "\<not> is_conditional rq" "bytes_range rq = None"
    by (simp_all add: unconditional_def)
  then have "respond w rq content ?r
      = transfer w content
          (?r\<lparr>headers := set_header ''Content-Length'' (digits (length content)) (headers ?r)\<rparr>)"
    by (simp add: respond_def Let_def select_range_none)
  with assms(1,3) have "download w rq p name r
      = transfer w content
          (?r\<lparr>headers := set_header ''Content-Length'' (digits (length content)) (headers ?r)\<rparr>)"
    by (simp add: download_def)
  with cd file_headers_keeps [of w p name content r] show ?thesis
    by (simp add: transfer_end [OF assms(2)] sent_status_def sent_header_def map_of_set_header)
qed

lemma contentDisposition_processed:
  \<open>contentDisposition ''processed.csv'' = ''attachment; filename="processed.csv"''\<close>
  by (simp add: contentDisposition_def)

subsection \<open>Failure of the child\<close>

text \<open>
  C1, as the code has it. When the child closes with a nonzero exit code, the
  response is 500 with the body \<^verbatim>\<open>Python script failed.\<close>, whatever the child
  wrote on its pipes before (\<open>evs\<close>) and whatever the disk holds at that moment
  (\<open>w\<close>). The body is sent by \<^verbatim>\<open>res.send\<close>, which labels a string
  \<^verbatim>\<open>text/html; charset=utf-8\<close>.
\<close>

theorem nonzero_exit_responds_500:
  assumes "upload_handler dirname rq = Inr c0"
    and "quiet evs"
    and "n \<noteq> 0"
  shows "sent_status (res (run dirname etagFn (evs @ [(w, Close (Some n))]) c0)) = Some 500
       \<and> sent_header ''Content-Type'' (res (run dirname etagFn (evs @ [(w, Close (Some n))]) c0))
           = Some ''text/html; charset=utf-8''
       \<and> written (res (run dirname etagFn (evs @ [(w, Close (Some n))]) c0))
           = ''Python script failed.''
       \<and> finished (res (run dirname etagFn (evs @ [(w, Close (Some n))]) c0))
       \<and> uncaught (run dirname etagFn (evs @ [(w, Close (Some n))]) c0) = None"
proof -
  from assms(1) have c0: "res c0 = new_response" "uncaught c0 = None"
    using upload_handler_Inr by blast+
  let ?c = "run dirname etagFn evs c0"
  from run_quiet [OF assms(2), of dirname etagFn c0] c0
  have c: "res ?c = new_response" "uncaught ?c = None" by simp_all
  from assms(3) have nz: "Some n \<noteq> Some 0" by simp
  have "head_sent (res ?c) = None" by (simp add: c new_response_def)
  from on_close_failure [OF nz this, of dirname etagFn w] c
  show ?thesis
    by (simp add: run_close_last [OF assms(2) c0(2)] new_response_def)
qed

theorem nonzero_exit_responds_500_witness:
  "upload_handler ''/srv/app'' (bare_request\<lparr>req_file := Some sample_file\<rparr>)
     = Inr (sample_conn bare_request)
   \<and> quiet [(empty_world, Stderr_data ''Traceback'')]
   \<and> (2::int) \<noteq> 0
   \<and> sent_status (res (run ''/srv/app'' sample_etag
        ([(empty_world, Stderr_data ''Traceback'')] @ [(sample_world Stream_end, Close (Some 2))])
        (sample_conn bare_request))) = Some 500
   \<and> sent_header ''Content-Type'' (res (run ''/srv/app'' sample_etag
        ([(empty_world, Stderr_data ''Traceback'')] @ [(sample_world Stream_end, Close (Some 2))])
        (sample_conn bare_request))) = Some ''text/html; charset=utf-8''
   \<and> written (res (run ''/srv/app'' sample_etag
        ([(empty_world, Stderr_data ''Traceback'')] @ [(sample_world Stream_end, Close (Some 2))])
        (sample_conn bare_request))) = ''Python script failed.''"
proof -
  have h1: "upload_handler ''/srv/app'' (bare_request\<lparr>req_file := Some sample_file\<rparr>)
              = Inr (sample_conn bare_request)"
    by (rule upload_handler_sample)
  have h2: "quiet [(empty_world, Stderr_data ''Traceback'')]"
    by (simp add: quiet_def)
  have h3: "(2::int) \<noteq> 0" by simp
  from nonzero_exit_responds_500 [OF h1 h2 h3, of sample_etag "sample_world Stream_end"] h1 h2 h3
  show ?thesis by blast
qed

text \<open>
  C1 speaks of a plain-text body. The answer to an exit code of 1 is labelled
  \<^verbatim>\<open>text/html; charset=utf-8\<close>, not \<^verbatim>\<open>text/plain\<close>.
\<close>

theorem nonzero_exit_html_counterexample:
  "upload_handler ''/srv/app'' (bare_request\<lparr>req_file := Some sample_file\<rparr>)
     = Inr (sample_conn bare_request)
   \<and> sent_status (res (run ''/srv/app'' sample_etag [(empty_world, Close (Some 1))]
        (sample_conn bare_request))) = Some 500
   \<and> sent_header ''Content-Type'' (res (run ''/srv/app'' sample_etag
        [(empty_world, Close (Some 1))] (sample_conn bare_request)))
       = Some ''text/html; charset=utf-8''
   \<and> sent_header ''Content-Type'' (res (run ''/srv/app'' sample_etag
        [(empty_world, Close (Some 1))] (sample_conn bare_request)))
       \<noteq> Some ''text/plain; charset=utf-8''"
  by (simp add: upload_handler_sample)
    (simp add: sample_conn_def on_close_def Let_def new_response_def fail_with_def send_def
      status_def req_fresh_def sent_status_def sent_header_def map_of_default_header
      map_of_set_header)

text \<open>What the success branch can answer is never the failure answer.\<close>

lemma on_close_success_response:
  assumes "head_sent (res c) = None" "statusCode (res c) = 200"
  shows "\<not> (sent_status (res (on_close dirname etagFn w (Some 0) c)) = Some 500
           \<and> written (res (on_close dirname etagFn w (Some 0) c)) = ''Python script failed.'')"
proof -
  let ?c1 = "c\<lparr>console := console c
                   @ [Console_log (''Python script exited with code '' @ string_of_code (Some 0))]\<rparr>"
  obtain r err where d: "download w (req c) (outputFile dirname) ''processed.csv'' (res c) = (r, err)"
    by (cases "download w (req c) (outputFile dirname) ''processed.csv'' (res c)")
  from download_cases [OF assms(1), of w "req c" "outputFile dirname" "''processed.csv''"] d assms(2)
  have sent: "err = None \<longrightarrow> head_sent r \<noteq> None"
    and st: "sent_status r = None \<or> sent_status r = Some 200 \<or> sent_status r = Some 206
             \<or> sent_status r = Some 304"
    by simp_all
  show ?thesis
  proof (cases err)
    case None
    with d st sent show ?thesis
      by (auto simp add: on_close_def Let_def sent_status_def)
  next
    case (Some e)
    let ?c2 = "?c1\<lparr>res := r,
                 console := console ?c1 @ [Console_error ''Error sending file:'' (Some e)]\<rparr>"
    have eq: "on_close dirname etagFn w (Some 0) c
                = fail_with etagFn ''Error downloading processed file.'' ?c2"
      using d Some by (simp add: on_close_def Let_def)
    show ?thesis
    proof (cases "head_sent r = None")
      case True
      then have "head_sent (res ?c2) = None" by simp
      from fail_with_fresh [OF this, of etagFn "''Error downloading processed file.''"]
      show ?thesis by (simp add: eq)
    next
      case False
      then have "head_sent (res ?c2) \<noteq> None" by simp
      from fail_with_sent [OF this, of etagFn "''Error downloading processed file.''"] st False
      show ?thesis by (auto simp add: eq sent_status_def)
    qed
  qed
qed

text \<open>
  C10. When the child is ended by a signal, the close code is \<^verbatim>\<open>null\<close> and the
  handler answers 500 with \<^verbatim>\<open>Python script failed.\<close>. For any close code, that
  answer is given exactly when the code is not the number 0: the branch that
  downloads the file is taken exactly when \<^verbatim>\<open>code === 0\<close>.
\<close>

theorem close_code_null_fails:
  assumes "upload_handler dirname rq = Inr c0"
    and "quiet evs"
  shows "sent_status (res (run dirname etagFn (evs @ [(w, Close None)]) c0)) = Some 500
       \<and> sent_header ''Content-Type'' (res (run dirname etagFn (evs @ [(w, Close None)]) c0))
           = Some ''text/html; charset=utf-8''
       \<and> written (res (run dirname etagFn (evs @ [(w, Close None)]) c0)) = ''Python script failed.''
       \<and> finished (res (run dirname etagFn (evs @ [(w, Close None)]) c0))
       \<and> ((sent_status (res (run dirname etagFn (evs @ [(w, Close code)]) c0)) = Some 500
            \<and> written (res (run dirname etagFn (evs @ [(w, Close code)]) c0))
                = ''Python script failed.'')
           = (code \<noteq> Some 0))"
proof -
  from assms(1) have c0: "res c0 = new_response" "uncaught c0 = None"
    using upload_handler_Inr by blast+
  let ?c = "run dirname etagFn evs c0"
  from run_quiet [OF assms(2), of dirname etagFn c0] c0
  have c: "res ?c = new_response" "uncaught ?c = None" by simp_all
  have fresh: "head_sent (res ?c) = None" "statusCode (res ?c) = 200"
    by (simp_all add: c new_response_def)
  have null: "None \<noteq> Some (0::int)" by simp
  have fail: "code' \<noteq> Some 0 \<Longrightarrow>
      sent_status (res (run dirname etagFn (evs @ [(w, Close code')]) c0)) = Some 500
      \<and> sent_header ''Content-Type'' (res (run dirname etagFn (evs @ [(w, Close code')]) c0))
          = Some ''text/html; charset=utf-8''
      \<and> written (res (run dirname etagFn (evs @ [(w, Close code')]) c0)) = ''Python script failed.''
      \<and> finished (res (run dirname etagFn (evs @ [(w, Close code')]) c0))" for code'
    using on_close_failure [OF _ fresh(1), of code' dirname etagFn w] c
    by (simp add: run_close_last [OF assms(2) c0(2)] new_response_def)
  have ok: "\<not> (sent_status (res (run dirname etagFn (evs @ [(w, Close (Some 0))]) c0)) = Some 500
      \<and> written (res (run dirname etagFn (evs @ [(w, Close (Some 0))]) c0))
          = ''Python script failed.'')"
    using on_close_success_response [OF fresh, of dirname etagFn w]
    by (simp add: run_close_last [OF assms(2) c0(2)])
  show ?thesis
  proof (cases "code = Some 0")
    case True
    with ok fail [OF null] show ?thesis by simp
  next
    case False
    with fail [OF null] fail [OF False] show ?thesis by simp
  qed
qed

theorem close_code_null_fails_witness:
  "upload_handler ''/srv/app'' (bare_request\<lparr>req_file := Some sample_file\<rparr>)
     = Inr (sample_conn bare_request)
   \<and> quiet [(empty_world, Stderr_data ''Killed'')]
   \<and> sent_status (res (run ''/srv/app'' sample_etag
        ([(empty_world, Stderr_data ''Killed'')] @ [(sample_world Stream_end, Close None)])
        (sample_conn bare_request))) = Some 500
   \<and> written (res (run ''/srv/app'' sample_etag
        ([(empty_world, Stderr_data ''Killed'')] @ [(sample_world Stream_end, Close None)])
        (sample_conn bare_request))) = ''Python script failed.''
   \<and> \<not> (sent_status (res (run ''/srv/app'' sample_etag
        ([(empty_world, Stderr_data ''Killed'')] @ [(sample_world Stream_end, Close (Some 0))])
        (sample_conn bare_request))) = Some 500
      \<and> written (res (run ''/srv/app'' sample_etag
        ([(empty_world, Stderr_data ''Killed'')] @ [(sample_world Stream_end, Close (Some 0))])
        (sample_conn bare_request))) = ''Python script failed.'')"
proof -
  have h1: "upload_handler ''/srv/app'' (bare_request\<lparr>req_file := Some sample_file\<rparr>)
              = Inr (sample_conn bare_request)"
    by (rule upload_handler_sample)
  have h2: "quiet [(empty_world, Stderr_data ''Killed'')]"
    by (simp add: quiet_def)
  from close_code_null_fails [OF h1 h2, of sample_etag "sample_world Stream_end" "Some 0"] h1 h2
  show ?thesis by simp
qed

subsection \<open>Success of the child\<close>

lemma unconditional_sample: "unconditional (bare_request\<lparr>req_file := Some sample_file\<rparr>)"
  by (simp add: unconditional_def is_conditional_def bare_request_def)

text \<open>
  C2, as the code has it. When the request has no validator and no range, the
  child exits with code 0, the output file can be opened and the transfer reaches
  its end, the response is 200 with the header
  \<^verbatim>\<open>Content-Disposition: attachment; filename="processed.csv"\<close> and the body is
  the content of the output file.
\<close>

theorem exit_zero_streams_output_file:
  assumes "upload_handler dirname rq = Inr c0"
    and "quiet evs"
    and "files w (outputFile dirname) = Some content"
    and "stream w = Stream_end"
    and "unconditional rq"
  shows \<open>sent_status (res (run dirname etagFn (evs @ [(w, Close (Some 0))]) c0)) = Some 200
       \<and> sent_header ''Content-Disposition''
             (res (run dirname etagFn (evs @ [(w, Close (Some 0))]) c0))
           = Some ''attachment; filename="processed.csv"''
       \<and> written (res (run dirname etagFn (evs @ [(w, Close (Some 0))]) c0)) = content
       \<and> finished (res (run dirname etagFn (evs @ [(w, Close (Some 0))]) c0))
       \<and> uncaught (run dirname etagFn (evs @ [(w, Close (Some 0))]) c0) = None\<close>
proof -
  from assms(1) have c0: "res c0 = new_response" "uncaught c0 = None" "req c0 = rq"
    using upload_handler_Inr by blast+
  let ?c = "run dirname etagFn evs c0"
  from run_quiet [OF assms(2), of dirname etagFn c0] c0
  have c: "res ?c = new_response" "uncaught ?c = None" "req ?c = rq" by simp_all
  have fresh: "head_sent new_response = None" "statusCode new_response = 200"
    by (simp_all add: new_response_def)
  obtain r err
    where d: "download w rq (outputFile dirname) ''processed.csv'' new_response = (r, err)"
    by (cases "download w rq (outputFile dirname) ''processed.csv'' new_response")
  from download_whole [OF assms(3) assms(4) fresh(1) assms(5), of "''processed.csv''"] d fresh(2)
  have "err = None" "sent_status r = Some 200"
    "sent_header ''Content-Disposition'' r = Some (contentDisposition ''processed.csv'')"
    "written r = content" "finished r"
    by simp_all
  with d c show ?thesis
    by (simp add: run_close_last [OF assms(2) c0(2)] on_close_def Let_def
        contentDisposition_processed)
qed

theorem exit_zero_streams_output_file_witness:
  \<open>upload_handler ''/srv/app'' (bare_request\<lparr>req_file := Some sample_file\<rparr>)
     = Inr (sample_conn bare_request)
   \<and> quiet [(empty_world, Stdout_data ''done'')]
   \<and> files (sample_world Stream_end) (outputFile ''/srv/app'') = Some ''dealer,url''
   \<and> stream (sample_world Stream_end) = Stream_end
   \<and> unconditional (bare_request\<lparr>req_file := Some sample_file\<rparr>)
   \<and> sent_status (res (run ''/srv/app'' sample_etag
        ([(empty_world, Stdout_data ''done'')] @ [(sample_world Stream_end, Close (Some 0))])
        (sample_conn bare_request))) = Some 200
   \<and> sent_header ''Content-Disposition'' (res (run ''/srv/app'' sample_etag
        ([(empty_world, Stdout_data ''done'')] @ [(sample_world Stream_end, Close (Some 0))])
        (sample_conn bare_request))) = Some ''attachment; filename="processed.csv"''
   \<and> written (res (run ''/srv/app'' sample_etag
        ([(empty_world, Stdout_data ''done'')] @ [(sample_world Stream_end, Close (Some 0))])
        (sample_conn bare_request))) = ''dealer,url''\<close>
proof -
  have h1: "upload_handler ''/srv/app'' (bare_request\<lparr>req_file := Some sample_file\<rparr>)
              = Inr (sample_conn bare_request)"
    by (rule upload_handler_sample)
  have h2: "quiet [(empty_world, Stdout_data ''done'')]"
    by (simp add: quiet_def)
  have h3: "files (sample_world Stream_end) (outputFile ''/srv/app'') = Some ''dealer,url''"
    by (simp add: sample_world_def outputFile_sample)
  have h4: "stream (sample_world Stream_end) = Stream_end"
    by (simp add: sample_world_def)
  note h5 = unconditional_sample
  from exit_zero_streams_output_file [OF h1 h2 h3 h4 h5, of sample_etag] h1 h2 h3 h4 h5
  show ?thesis by blast
qed

text \<open>
  C2 does not hold for every request. \<^verbatim>\<open>send\<close> reads the validators and the
  range of the request although its method is POST: with the child's exit code 0
  and the file \<^verbatim>\<open>dealer,url\<close> readable, \<^verbatim>\<open>If-None-Match: *\<close> is answered 304
  with no body, and \<^verbatim>\<open>Range: bytes=0-1\<close> is answered 206 with the two bytes
  \<^verbatim>\<open>de\<close>.
\<close>

theorem conditional_download_counterexample:
  "upload_handler ''/srv/app'' (bare_request\<lparr>if_none_match := Some ''*'', req_file := Some sample_file\<rparr>)
     = Inr (sample_conn (bare_request\<lparr>if_none_match := Some ''*''\<rparr>))
   \<and> files (sample_world Stream_end) (outputFile ''/srv/app'') = Some ''dealer,url''
   \<and> stream (sample_world Stream_end) = Stream_end
   \<and> sent_status (res (run ''/srv/app'' sample_etag [(sample_world Stream_end, Close (Some 0))]
        (sample_conn (bare_request\<lparr>if_none_match := Some ''*''\<rparr>)))) = Some 304
   \<and> written (res (run ''/srv/app'' sample_etag [(sample_world Stream_end, Close (Some 0))]
        (sample_conn (bare_request\<lparr>if_none_match := Some ''*''\<rparr>)))) = []
   \<and> upload_handler ''/srv/app''
        (bare_request\<lparr>bytes_range := Some [(Some 0, Some 1)], req_file := Some sample_file\<rparr>)
     = Inr (sample_conn (bare_request\<lparr>bytes_range := Some [(Some 0, Some 1)]\<rparr>))
   \<and> sent_status (res (run ''/srv/app'' sample_etag [(sample_world Stream_end, Close (Some 0))]
        (sample_conn (bare_request\<lparr>bytes_range := Some [(Some 0, Some 1)]\<rparr>)))) = Some 206
   \<and> written (res (run ''/srv/app'' sample_etag [(sample_world Stream_end, Close (Some 0))]
        (sample_conn (bare_request\<lparr>bytes_range := Some [(Some 0, Some 1)]\<rparr>)))) = ''de''"
proof -
  have a: "upload_handler ''/srv/app'' (bare_request\<lparr>if_none_match := Some ''*'', req_file := Some sample_file\<rparr>)
     = Inr (sample_conn (bare_request\<lparr>if_none_match := Some ''*''\<rparr>))"
    using upload_handler_sample [of "bare_request\<lparr>if_none_match := Some ''*''\<rparr>"] by simp
  have b: "upload_handler ''/srv/app''
        (bare_request\<lparr>bytes_range := Some [(Some 0, Some 1)], req_file := Some sample_file\<rparr>)
     = Inr (sample_conn (bare_request\<lparr>bytes_range := Some [(Some 0, Some 1)]\<rparr>))"
    using upload_handler_sample [of "bare_request\<lparr>bytes_range := Some [(Some 0, Some 1)]\<rparr>"] by simp
  have w: "files (sample_world Stream_end) (outputFile ''/srv/app'') = Some ''dealer,url''"
    "stream (sample_world Stream_end) = Stream_end"
    by (simp_all add: sample_world_def outputFile_sample)
  have c: "sent_status (res (run ''/srv/app'' sample_etag [(sample_world Stream_end, Close (Some 0))]
        (sample_conn (bare_request\<lparr>if_none_match := Some ''*''\<rparr>)))) = Some 304
   \<and> written (res (run ''/srv/app'' sample_etag [(sample_world Stream_end, Close (Some 0))]
        (sample_conn (bare_request\<lparr>if_none_match := Some ''*''\<rparr>)))) = []"
    by (simp add: sample_conn_def sample_world_def bare_request_def on_close_def outputFile_sample
        download_def respond_def file_headers_def Let_def new_response_def is_conditional_def
        precondition_failure_def fresh_def not_modified_def sent_status_def)
  have d: "sent_status (res (run ''/srv/app'' sample_etag [(sample_world Stream_end, Close (Some 0))]
        (sample_conn (bare_request\<lparr>bytes_range := Some [(Some 0, Some 1)]\<rparr>)))) = Some 206
   \<and> written (res (run ''/srv/app'' sample_etag [(sample_world Stream_end, Close (Some 0))]
        (sample_conn (bare_request\<lparr>bytes_range := Some [(Some 0, Some 1)]\<rparr>)))) = ''de''"
    by (simp add: sample_conn_def sample_world_def bare_request_def on_close_def outputFile_sample
        download_def respond_def file_headers_def Let_def new_response_def is_conditional_def
        select_range_def range_fresh_def parseRange_def List.map_filter_simps spec_range_def
        combineRanges_def transfer_def sent_status_def)
  from a b w c d show ?thesis by blast
qed

text \<open>
  C3, as the code has it. When the child exits with code 0 and the download fails
  before anything of the response has been written (the output file is missing or
  cannot be opened, a precondition of the request fails, its range cannot be
  satisfied), the response is 500 with the body
  \<^verbatim>\<open>Error downloading processed file.\<close> It is labelled
  \<^verbatim>\<open>text/html; charset=utf-8\<close> when the file is missing; when the file was found
  it carries the disposition that \<^verbatim>\<open>send\<close> had set already.
\<close>

theorem failed_download_responds_500:
  assumes "upload_handler dirname rq = Inr c0"
    and "quiet evs"
    and "download w rq (outputFile dirname) ''processed.csv'' new_response = (r, Some err)"
    and "head_sent r = None"
  shows \<open>sent_status (res (run dirname etagFn (evs @ [(w, Close (Some 0))]) c0)) = Some 500
       \<and> written (res (run dirname etagFn (evs @ [(w, Close (Some 0))]) c0))
           = ''Error downloading processed file.''
       \<and> finished (res (run dirname etagFn (evs @ [(w, Close (Some 0))]) c0))
       \<and> uncaught (run dirname etagFn (evs @ [(w, Close (Some 0))]) c0) = None
       \<and> (if files w (outputFile dirname) = None
          then sent_header ''Content-Type''
                 (res (run dirname etagFn (evs @ [(w, Close (Some 0))]) c0))
               = Some ''text/html; charset=utf-8''
          else sent_header ''Content-Disposition''
                 (res (run dirname etagFn (evs @ [(w, Close (Some 0))]) c0))
               = Some ''attachment; filename="processed.csv"'')\<close>
proof -
  from assms(1) have c0: "res c0 = new_response" "uncaught c0 = None" "req c0 = rq"
    using upload_handler_Inr by blast+
  let ?c = "run dirname etagFn evs c0"
  from run_quiet [OF assms(2), of dirname etagFn c0] c0
  have c: "res ?c = new_response" "uncaught ?c = None" "req ?c = rq" by simp_all
  let ?c1 = "?c\<lparr>console := console ?c
                   @ [Console_log (''Python script exited with code '' @ string_of_code (Some 0))]\<rparr>"
  let ?c2 = "?c1\<lparr>res := r,
               console := console ?c1 @ [Console_error ''Error sending file:'' (Some err)]\<rparr>"
  have eq: "on_close dirname etagFn w (Some 0) ?c
              = fail_with etagFn ''Error downloading processed file.'' ?c2"
    using assms(3) c by (simp add: on_close_def Let_def)
  have "head_sent (res ?c2) = None" using assms(4) by simp
  note sent = fail_with_fresh [OF this, of etagFn "''Error downloading processed file.''"]
  have fresh: "head_sent new_response = None" by (simp add: new_response_def)
  have hdr: "if files w (outputFile dirname) = None
      then map_of (headers r) ''Content-Type'' = None
      else map_of (headers r) ''Content-Disposition''
             = Some (contentDisposition ''processed.csv'')"
  proof (cases "files w (outputFile dirname)")
    case None
    with assms(3) have "r = new_response" by (simp add: download_missing)
    with None show ?thesis by (simp add: new_response_def)
  next
    case (Some content)
    with download_cases [OF fresh, of w rq "outputFile dirname" "''processed.csv''"] assms(3)
    show ?thesis by simp
  qed
  from sent hdr c show ?thesis
    by (simp add: run_close_last [OF assms(2) c0(2)] eq contentDisposition_processed
        split: if_splits)
qed

theorem failed_download_responds_500_witness:
  \<open>upload_handler ''/srv/app'' (bare_request\<lparr>req_file := Some sample_file\<rparr>)
     = Inr (sample_conn bare_request)
   \<and> quiet []
   \<and> download empty_world (bare_request\<lparr>req_file := Some sample_file\<rparr>)
        (outputFile ''/srv/app'') ''processed.csv'' new_response
       = (new_response, Some (SendError ''ENOENT''))
   \<and> head_sent new_response = None
   \<and> sent_status (res (run ''/srv/app'' sample_etag ([] @ [(empty_world, Close (Some 0))])
        (sample_conn bare_request))) = Some 500
   \<and> written (res (run ''/srv/app'' sample_etag ([] @ [(empty_world, Close (Some 0))])
        (sample_conn bare_request))) = ''Error downloading processed file.''
   \<and> sent_header ''Content-Type'' (res (run ''/srv/app'' sample_etag
        ([] @ [(empty_world, Close (Some 0))]) (sample_conn bare_request)))
       = Some ''text/html; charset=utf-8''
   \<and> upload_handler ''/srv/app'' (bare_request\<lparr>if_match := Some ''other'', req_file := Some sample_file\<rparr>)
     = Inr (sample_conn (bare_request\<lparr>if_match := Some ''other''\<rparr>))
   \<and> snd (download (sample_world Stream_end)
        (bare_request\<lparr>if_match := Some ''other'', req_file := Some sample_file\<rparr>)
        (outputFile ''/srv/app'') ''processed.csv'' new_response)
       = Some (SendError ''PreconditionFailed'')
   \<and> sent_status (res (run ''/srv/app'' sample_etag
        ([] @ [(sample_world Stream_end, Close (Some 0))])
        (sample_conn (bare_request\<lparr>if_match := Some ''other''\<rparr>)))) = Some 500
   \<and> written (res (run ''/srv/app'' sample_etag
        ([] @ [(sample_world Stream_end, Close (Some 0))])
        (sample_conn (bare_request\<lparr>if_match := Some ''other''\<rparr>))))
       = ''Error downloading processed file.''
   \<and> sent_header ''Content-Disposition'' (res (run ''/srv/app'' sample_etag
        ([] @ [(sample_world Stream_end, Close (Some 0))])
        (sample_conn (bare_request\<lparr>if_match := Some ''other''\<rparr>))))
       = Some ''attachment; filename="processed.csv"''\<close>
proof -
  have h1: "upload_handler ''/srv/app'' (bare_request\<lparr>req_file := Some sample_file\<rparr>)
              = Inr (sample_conn bare_request)"
    by (rule upload_handler_sample)
  have h2: "quiet []" by (simp add: quiet_def)
  have h3: "download empty_world (bare_request\<lparr>req_file := Some sample_file\<rparr>)
        (outputFile ''/srv/app'') ''processed.csv'' new_response
       = (new_response, Some (SendError ''ENOENT''))"
    by (simp add: download_def empty_world_def)
  have h4: "head_sent new_response = None" by (simp add: new_response_def)
  have none: "files empty_world (outputFile ''/srv/app'') = None"
    by (simp add: empty_world_def)
  have g1: "upload_handler ''/srv/app'' (bare_request\<lparr>if_match := Some ''other'', req_file := Some sample_file\<rparr>)
     = Inr (sample_conn (bare_request\<lparr>if_match := Some ''other''\<rparr>))"
    using upload_handler_sample [of "bare_request\<lparr>if_match := Some ''other''\<rparr>"] by simp
  let ?r = "file_headers (sample_world Stream_end) (outputFile ''/srv/app'') ''processed.csv''
              ''dealer,url'' new_response"
  have g3: "download (sample_world Stream_end)
        (bare_request\<lparr>if_match := Some ''other'', req_file := Some sample_file\<rparr>)
        (outputFile ''/srv/app'') ''processed.csv'' new_response
       = (?r, Some (SendError ''PreconditionFailed''))"
    by (simp add: download_def sample_world_def outputFile_sample new_response_def respond_def
        Let_def is_conditional_def bare_request_def precondition_failure_def file_headers_def
        map_of_default_header map_of_set_header file_etag_def parseTokenList_def trim_def
        etag_matches_def)
  have g4: "head_sent ?r = None"
    using file_headers_keeps [of "sample_world Stream_end" "outputFile ''/srv/app''"
        "''processed.csv''" "''dealer,url''" new_response] h4 by simp
  have some: "files (sample_world Stream_end) (outputFile ''/srv/app'') \<noteq> None"
    by (simp add: sample_world_def outputFile_sample)
  from failed_download_responds_500 [OF h1 h2 h3 h4, of sample_etag]
    failed_download_responds_500 [OF g1 h2 g3 g4, of sample_etag]
    h1 h2 h3 h4 none g1 g3 some
  show ?thesis by simp
qed

text \<open>
  C3 does not hold for every failed download. \<^verbatim>\<open>res.download\<close> also reports a
  transfer that broke after the head was written; Express's documentation of the
  callback says that the response may be partially sent by then. Here the child
  exits with 0, the transfer of \<^verbatim>\<open>dealer,url\<close> breaks after 6 bytes and the
  callback gets the error: the client has received status 200 and \<^verbatim>\<open>dealer\<close>, and
  the \<^verbatim>\<open>send\<close> of line 63 throws.
\<close>

theorem broken_transfer_counterexample:
  "upload_handler ''/srv/app'' (bare_request\<lparr>req_file := Some sample_file\<rparr>)
     = Inr (sample_conn bare_request)
   \<and> snd (download (sample_world (Stream_abort 6)) (req (sample_conn bare_request))
          (outputFile ''/srv/app'') ''processed.csv'' (res (sample_conn bare_request)))
       = Some (SendError ''ECONNABORTED'')
   \<and> sent_status (res (run ''/srv/app'' sample_etag
        [(sample_world (Stream_abort 6), Close (Some 0))] (sample_conn bare_request))) = Some 200
   \<and> written (res (run ''/srv/app'' sample_etag
        [(sample_world (Stream_abort 6), Close (Some 0))] (sample_conn bare_request))) = ''dealer''
   \<and> \<not> finished (res (run ''/srv/app'' sample_etag
        [(sample_world (Stream_abort 6), Close (Some 0))] (sample_conn bare_request)))
   \<and> uncaught (run ''/srv/app'' sample_etag
        [(sample_world (Stream_abort 6), Close (Some 0))] (sample_conn bare_request))
       = Some ERR_HTTP_HEADERS_SENT"
  by (simp add: upload_handler_sample)
    (simp add: sample_conn_def sample_world_def bare_request_def on_close_def outputFile_sample
      download_def respond_def file_headers_def transfer_def select_range_def is_conditional_def
      Let_def new_response_def fail_with_def send_def status_def sent_status_def)

subsection \<open>The response waits for the child\<close>

lemma on_close_sends:
  assumes "head_sent (res c) = None"
  shows "head_sent (res (on_close dirname etagFn w code c)) \<noteq> None"
proof (cases "code = Some 0")
  case False
  from on_close_failure [OF False assms, of dirname etagFn w]
  show ?thesis by (auto simp add: sent_status_def)
next
  case True
  let ?c1 = "c\<lparr>console := console c
                   @ [Console_log (''Python script exited with code '' @ string_of_code code)]\<rparr>"
  obtain r err where d: "download w (req c) (outputFile dirname) ''processed.csv'' (res c) = (r, err)"
    by (cases "download w (req c) (outputFile dirname) ''processed.csv'' (res c)")
  from download_cases [OF assms, of w "req c" "outputFile dirname" "''processed.csv''"] d
  have sent: "err = None \<longrightarrow> head_sent r \<noteq> None" by simp
  show ?thesis
  proof (cases err)
    case None
    with d sent True show ?thesis by (simp add: on_close_def Let_def)
  next
    case (Some e)
    let ?c2 = "?c1\<lparr>res := r,
                 console := console ?c1 @ [Console_error ''Error sending file:'' (Some e)]\<rparr>"
    have eq: "on_close dirname etagFn w code c
                = fail_with etagFn ''Error downloading processed file.'' ?c2"
      using d Some True by (simp add: on_close_def Let_def)
    show ?thesis
    proof (cases "head_sent r = None")
      case True
      then have "head_sent (res ?c2) = None" by simp
      from fail_with_fresh [OF this, of etagFn "''Error downloading processed file.''"]
      show ?thesis by (auto simp add: eq sent_status_def)
    next
      case False
      then have "head_sent (res ?c2) \<noteq> None" by simp
      from fail_with_sent [OF this, of etagFn "''Error downloading processed file.''"] False
      show ?thesis by (simp add: eq)
    qed
  qed
qed

lemma on_close_stays_sent:
  assumes "head_sent (res c) \<noteq> None"
  shows "head_sent (res (on_close dirname etagFn w code c)) = head_sent (res c)"
proof (cases "code = Some 0")
  case False
  let ?c1 = "c\<lparr>console := console c
                   @ [Console_log (''Python script exited with code '' @ string_of_code code)]\<rparr>"
  have "head_sent (res ?c1) \<noteq> None" using assms by simp
  from fail_with_sent [OF this, of etagFn "''Python script failed.''"] False
  show ?thesis by (simp add: on_close_def Let_def)
next
  case True
  obtain r err where d: "download w (req c) (outputFile dirname) ''processed.csv'' (res c) = (r, err)"
    by (cases "download w (req c) (outputFile dirname) ''processed.csv'' (res c)")
  with download_sent [OF assms, of w "req c" "outputFile dirname" "''processed.csv''"]
  have "r = res c" "err \<noteq> None" by simp_all
  then obtain e where e: "err = Some e" by (cases err) auto
  let ?c1 = "c\<lparr>console := console c
                   @ [Console_log (''Python script exited with code '' @ string_of_code code)]\<rparr>"
  let ?c2 = "?c1\<lparr>res := r,
               console := console ?c1 @ [Console_error ''Error sending file:'' (Some e)]\<rparr>"
  have "head_sent (res ?c2) \<noteq> None" using assms \<open>r = res c\<close> by simp
  from fail_with_sent [OF this, of etagFn "''Error downloading processed file.''"]
    d e True \<open>r = res c\<close>
  show ?thesis by (simp add: on_close_def Let_def)
qed

lemma on_event_stays_sent:
  "head_sent (res c) \<noteq> None \<Longrightarrow>
     head_sent (res (on_event dirname etagFn w e c)) = head_sent (res c)"
  by (cases e) (simp_all add: on_close_stays_sent)

lemma run_stays_sent:
  "head_sent (res c) \<noteq> None \<Longrightarrow> head_sent (res (run dirname etagFn evs c)) = head_sent (res c)"
proof (induction evs arbitrary: c)
  case Nil
  show ?case by simp
next
  case (Cons x evs)
  obtain w e where x: "x = (w, e)" by (cases x)
  from on_event_stays_sent [OF Cons.prems, of dirname etagFn w e]
  have "head_sent (res (on_event dirname etagFn w e c)) \<noteq> None" using Cons.prems by simp
  from Cons.IH [OF this] on_event_stays_sent [OF Cons.prems, of dirname etagFn w e]
  show ?case by (simp add: x)
qed

lemma not_quiet_split:
  "\<not> quiet evs \<Longrightarrow> \<exists>pre w code post. evs = pre @ (w, Close code) # post \<and> quiet pre"
proof (induction evs)
  case Nil
  then show ?case by (simp add: quiet_def)
next
  case (Cons x evs)
  obtain w e where x: "x = (w, e)" by (cases x)
  show ?case
  proof (cases e)
    case (Close code)
    have "x # evs = [] @ (w, Close code) # evs \<and> quiet []"
      by (simp add: x Close quiet_def)
    then show ?thesis by blast
  next
    case (Stdout_data d)
    with Cons.prems x have "\<not> quiet evs" by (simp add: quiet_def)
    from Cons.IH [OF this] obtain pre w' code post
      where "evs = pre @ (w', Close code) # post" "quiet pre" by blast
    then have "x # evs = (x # pre) @ (w', Close code) # post \<and> quiet (x # pre)"
      by (simp add: x Stdout_data quiet_def)
    then show ?thesis by blast
  next
    case (Stderr_data d)
    with Cons.prems x have "\<not> quiet evs" by (simp add: quiet_def)
    from Cons.IH [OF this] obtain pre w' code post
      where "evs = pre @ (w', Close code) # post" "quiet pre" by blast
    then have "x # evs = (x # pre) @ (w', Close code) # post \<and> quiet (x # pre)"
      by (simp add: x Stderr_data quiet_def)
    then show ?thesis by blast
  qed
qed

text \<open>
  C7. Nothing of the response is written before the child's \<^verbatim>\<open>'close'\<close> event:
  after any events without a close the response is untouched, and the head has
  been written exactly when a close has been delivered. The source sets no timer,
  so a child that never closes leaves the request unanswered after every number
  of events.
\<close>

theorem response_waits_for_close:
  assumes "upload_handler dirname rq = Inr c0"
  shows "(quiet evs \<longrightarrow> res (run dirname etagFn evs c0) = new_response)
       \<and> (head_sent (res (run dirname etagFn evs c0)) = None) = quiet evs"
proof -
  from assms have c0: "res c0 = new_response" "uncaught c0 = None"
    using upload_handler_Inr by blast+
  have fresh: "head_sent new_response = None" by (simp add: new_response_def)
  have a: "res (run dirname etagFn evs c0) = new_response" if "quiet evs"
    using run_quiet [OF that, of dirname etagFn c0] c0 by simp
  have b: "head_sent (res (run dirname etagFn evs c0)) \<noteq> None" if "\<not> quiet evs"
  proof -
    from not_quiet_split [OF that] obtain pre w code post
      where evs: "evs = pre @ (w, Close code) # post" and q: "quiet pre" by blast
    let ?c = "run dirname etagFn pre c0"
    from run_quiet [OF q, of dirname etagFn c0] c0
    have c: "res ?c = new_response" "uncaught ?c = None" by simp_all
    then have "head_sent (res ?c) = None" by (simp add: fresh)
    from on_close_sends [OF this, of dirname etagFn w code]
    have "head_sent (res (run dirname etagFn post (on_close dirname etagFn w code ?c))) \<noteq> None"
      by (simp add: run_stays_sent)
    then show ?thesis
      by (simp add: evs run_append c run_crashed split: if_splits)
  qed
  show ?thesis
  proof (cases "quiet evs")
    case True
    with a [OF True] fresh show ?thesis by simp
  next
    case False
    with b [OF False] show ?thesis by simp
  qed
qed

theorem response_waits_for_close_witness:
  "upload_handler ''/srv/app'' (bare_request\<lparr>req_file := Some sample_file\<rparr>)
     = Inr (sample_conn bare_request)
   \<and> quiet [(empty_world, Stdout_data ''row 1''), (empty_world, Stderr_data ''warning'')]
   \<and> res (run ''/srv/app'' sample_etag
        [(empty_world, Stdout_data ''row 1''), (empty_world, Stderr_data ''warning'')]
        (sample_conn bare_request)) = new_response
   \<and> head_sent (res (run ''/srv/app'' sample_etag
        [(empty_world, Stdout_data ''row 1''), (empty_world, Stderr_data ''warning'')]
        (sample_conn bare_request))) = None"
proof -
  have h1: "upload_handler ''/srv/app'' (bare_request\<lparr>req_file := Some sample_file\<rparr>)
              = Inr (sample_conn bare_request)"
    by (rule upload_handler_sample)
  have h2: "quiet [(empty_world, Stdout_data ''row 1''), (empty_world, Stderr_data ''warning'')]"
    by (simp add: quiet_def)
  from response_waits_for_close [OF h1, where etagFn = sample_etag
      and evs = "[(empty_world, Stdout_data ''row 1''), (empty_world, Stderr_data ''warning'')]"]
    h1 h2
  show ?thesis by blast
qed

subsection \<open>The upload and the spawned command\<close>

lemma single_parts_no_file:
  "list_all (\<lambda>p. \<not> names_file name p) ps \<Longrightarrow>
     single_parts opts name gen left ps st = Inr st
     \<or> (\<exists>e. single_parts opts name gen left ps st = Inl e)"
proof (induction opts name gen left ps st rule: single_parts.induct)
  case (1 opts name gen filesLeft st)
  show ?case by simp
next
  case (2 opts name gen filesLeft k v ps st)
  then show ?case by simp
next
  case (3 opts name gen filesLeft fld fname content ps f files)
  show ?case
  proof (cases "basename fname = []")
    case True
    with 3 show ?thesis by simp
  next
    case False
    with "3.prems" have "fld \<noteq> name" by simp
    with False show ?thesis by simp
  qed
qed

text \<open>
  C5. When the body has no file in the field \<^verbatim>\<open>csvFile\<close>, the request ends in an
  error and the relay spawns nothing and writes no response. If the middleware
  passes the request on, \<^verbatim>\<open>req.file\<close> is undefined and the handler throws a
  \<^verbatim>\<open>TypeError\<close> on reading its \<^verbatim>\<open>path\<close>; otherwise the middleware has rejected
  the body.
\<close>

theorem missing_file_is_error:
  assumes "list_all (\<lambda>p. \<not> names_file ''csvFile'' p) parts"
  shows "(\<exists>e. post_upload dirname gen rq parts disk = Inl e)
       \<and> (\<forall>rq' disk'. single upload ''csvFile'' gen rq parts disk = Inr (rq', disk') \<longrightarrow>
             req_file rq' = None
             \<and> upload_handler dirname rq' = Inl (TypeError ''cannot read property path of undefined''))"
proof -
  from single_parts_no_file [OF assms, of upload gen 1 "(None, disk)"]
  consider "single_parts upload ''csvFile'' gen 1 parts (None, disk) = Inr (None, disk)"
    | e where "single_parts upload ''csvFile'' gen 1 parts (None, disk) = Inl e"
    by blast
  then show ?thesis
  proof cases
    case 1
    then show ?thesis
      by (auto simp add: post_upload_def single_def upload_handler_def)
  next
    case 2
    then show ?thesis
      by (simp add: post_upload_def single_def)
  qed
qed

theorem missing_file_is_error_witness:
  "list_all (\<lambda>p. \<not> names_file ''csvFile'' p)
      [Field_part ''note'' ''weekly'', File_part ''csvFile'' [] []]
   \<and> single upload ''csvFile'' ''0a1b2c'' bare_request
        [Field_part ''note'' ''weekly'', File_part ''csvFile'' [] []] Map.empty
       = Inr (bare_request, Map.empty)
   \<and> upload_handler ''/srv/app'' bare_request
       = Inl (TypeError ''cannot read property path of undefined'')
   \<and> (\<exists>e. post_upload ''/srv/app'' ''0a1b2c'' bare_request
        [Field_part ''note'' ''weekly'', File_part ''csvFile'' [] []] Map.empty = Inl e)"
proof -
  have h: "list_all (\<lambda>p. \<not> names_file ''csvFile'' p)
      [Field_part ''note'' ''weekly'', File_part ''csvFile'' [] []]"
    by (simp add: basename_def)
  have s: "single upload ''csvFile'' ''0a1b2c'' bare_request
        [Field_part ''note'' ''weekly'', File_part ''csvFile'' [] []] Map.empty
       = Inr (bare_request, Map.empty)"
    by (simp add: single_def basename_def fieldSize_def bare_request_def)
  from missing_file_is_error [OF h, of "''/srv/app''" "''0a1b2c''" bare_request Map.empty] h s
  show ?thesis by simp
qed

lemma single_parts_fields:
  "list_all is_field ps \<Longrightarrow> single_parts opts name gen left ps st = Inr st"
proof (induction ps)
  case Nil
  show ?case by simp
next
  case (Cons p ps)
  then show ?case by (cases p) simp_all
qed

lemma single_parts_append_fields:
  "list_all is_field pre \<Longrightarrow>
     single_parts opts name gen left (pre @ ps) st = single_parts opts name gen left ps st"
proof (induction pre)
  case Nil
  show ?case by simp
next
  case (Cons p pre)
  then show ?case by (cases p) simp_all
qed

lemma single_upload_one_file:
  assumes "basename fname \<noteq> []" "list_all is_field pre" "list_all is_field post"
  shows "single upload ''csvFile'' gen rq (pre @ File_part ''csvFile'' fname content # post) disk =
     Inr (rq\<lparr>req_file := Some \<lparr>fieldname = ''csvFile'', originalname = basename fname,
                             destination = ''uploads/'', filename = gen,
                             path = path_join [''uploads/'', gen],
                             size_bytes = length content\<rparr>\<rparr>,
          disk(path_join [''uploads/'', gen] \<mapsto> content))"
  using assms
  by (simp add: single_def single_parts_append_fields single_parts_fields
      upload_def includeFile_def Let_def)

text \<open>
  C8, as the code has it. A file uploaded in the field \<^verbatim>\<open>csvFile\<close> is accepted
  whatever the extension of its name is (the server configures no filter;
  \<^verbatim>\<open>accept=".csv"\<close> is a hint to the browser), provided that its base name is not
  empty and the rest of the body is text fields that multer accepts: it is stored
  under \<^verbatim>\<open>uploads/\<close> and that temporary path is the input argument of the
  spawned command.
\<close>

theorem any_file_name_is_forwarded:
  assumes "basename fname \<noteq> []" "list_all is_field pre" "list_all is_field post"
  shows "\<exists>c. post_upload dirname gen rq (pre @ File_part ''csvFile'' fname content # post) disk
               = Inr (c, disk(path_join [''uploads/'', gen] \<mapsto> content))
           \<and> child c = \<lparr>command = ''python3'',
                         args = [pythonScriptPath dirname, path_join [''uploads/'', gen],
                                 outputFile dirname]\<rparr>"
proof -
  let ?p = "path_join [''uploads/'', gen]"
  let ?stored = "\<lparr>fieldname = ''csvFile'', originalname = basename fname,
                   destination = ''uploads/'', filename = gen, path = ?p,
                   size_bytes = length content\<rparr>"
  from single_upload_one_file [OF assms]
  have accepted: "single upload ''csvFile'' gen rq (pre @ File_part ''csvFile'' fname content # post) disk
                    = Inr (rq\<lparr>req_file := Some ?stored\<rparr>, disk(?p \<mapsto> content))" .
  have spawned: "upload_handler dirname (rq\<lparr>req_file := Some ?stored\<rparr>)
                   = Inr \<lparr>req = rq\<lparr>req_file := Some ?stored\<rparr>,
                          res = new_response,
                          child = \<lparr>command = ''python3'',
                                   args = [pythonScriptPath dirname, ?p, outputFile dirname]\<rparr>,
                          console = [], uncaught = None\<rparr>"
    by (simp add: upload_handler_def)
  from accepted spawned show ?thesis
    by (simp add: post_upload_def)
qed

theorem any_file_name_is_forwarded_witness:
  "basename ''reports/dealers.txt'' \<noteq> []
   \<and> list_all is_field [Field_part ''note'' ''weekly''] \<and> list_all is_field []
   \<and> (\<exists>c. post_upload ''/srv/app'' ''0a1b2c'' bare_request
              ([Field_part ''note'' ''weekly'']
               @ File_part ''csvFile'' ''reports/dealers.txt'' ''a,b,c'' # [])
              Map.empty
            = Inr (c, [path_join [''uploads/'', ''0a1b2c''] \<mapsto> ''a,b,c''])
          \<and> child c = \<lparr>command = ''python3'',
                        args = [pythonScriptPath ''/srv/app'', path_join [''uploads/'', ''0a1b2c''],
                                outputFile ''/srv/app'']\<rparr>)"
proof -
  have h1: "basename ''reports/dealers.txt'' \<noteq> []" by (simp add: basename_def)
  have h2: "list_all is_field [Field_part ''note'' ''weekly'']" by (simp add: fieldSize_def)
  have h3: "list_all is_field []" by simp
  from any_file_name_is_forwarded [OF h1 h2 h3] h1 h2 h3
  show ?thesis by blast
qed

text \<open>
  C8 does not hold for every file name. An upload named \<^verbatim>\<open>..\<close> or
  \<^verbatim>\<open>reports/\<close> has an empty base name: multer passes it over, \<^verbatim>\<open>req.file\<close> is
  undefined and line 30 throws. A text field with no name before the file makes
  multer reject the body.
\<close>

theorem dot_name_upload_counterexample:
  "post_upload ''/srv/app'' ''0a1b2c'' bare_request [File_part ''csvFile'' ''..'' ''a,b,c''] Map.empty
     = Inl (TypeError ''cannot read property path of undefined'')
   \<and> post_upload ''/srv/app'' ''0a1b2c'' bare_request
        [File_part ''csvFile'' ''reports/'' ''a,b,c''] Map.empty
     = Inl (TypeError ''cannot read property path of undefined'')
   \<and> isl (post_upload ''/srv/app'' ''0a1b2c'' bare_request
        [Field_part [] ''weekly'', File_part ''csvFile'' ''dealers.csv'' ''a,b,c''] Map.empty)"
  by (simp add: post_upload_def single_def basename_def upload_handler_def bare_request_def)

lemma single_parts_stored_at:
  "single_parts opts name gen left ps st = Inr st' \<Longrightarrow>
     stored_at (path_join [dest opts, gen]) st \<Longrightarrow> stored_at (path_join [dest opts, gen]) st'"
proof (induction opts name gen left ps st rule: single_parts.induct)
  case (1 opts name gen filesLeft st)
  then show ?case by simp
next
  case (2 opts name gen filesLeft k v ps st)
  then show ?case by (simp split: if_splits)
next
  case (3 opts name gen filesLeft fld fname content ps f files)
  show ?case
  proof (cases "basename fname = []")
    case True
    with 3 show ?thesis by simp
  next
    case False
    note ne = this
    show ?thesis
    proof (cases "fld \<noteq> name \<or> filesLeft = 0")
      case True
      with ne "3.prems" show ?thesis by simp
    next
      case False
      note ok = this
      show ?thesis
      proof (cases "includeFile opts fld (basename fname)")
        case False
        with ne ok 3 show ?thesis by simp
      next
        case True
        let ?p = "path_join [dest opts, gen]"
        let ?stored = "\<lparr>fieldname = fld, originalname = basename fname, destination = dest opts,
                      filename = gen, path = ?p, size_bytes = length content\<rparr>"
        have st: "stored_at ?p (Some ?stored, files(?p \<mapsto> content))"
          by (simp add: stored_at_def)
        from "3.prems"(1) ne ok True
        have "single_parts opts name gen (filesLeft - 1) ps (Some ?stored, files(?p \<mapsto> content)) = Inr st'"
          by (simp add: Let_def)
        from "3.IH"(3) [OF ne ok _ refl refl this st] True
        show ?thesis by simp
      qed
    qed
  qed
qed

text \<open>
  C6. Whenever the route spawns the child, the command is \<^verbatim>\<open>python3\<close> with three
  arguments: the script, then the temporary path of the upload, then the fixed
  output path. The handler passes \<^verbatim>\<open>req.file.path\<close> as the input path whenever
  \<^verbatim>\<open>req.file\<close> is defined.
\<close>

theorem spawn_invocation:
  "(\<forall>c disk'. post_upload dirname gen rq0 parts disk = Inr (c, disk') \<longrightarrow>
       child c = \<lparr>command = ''python3'',
                   args = [pythonScriptPath dirname, path_join [''uploads/'', gen],
                           outputFile dirname]\<rparr>
       \<and> disk' (path_join [''uploads/'', gen]) \<noteq> None)
   \<and> (\<forall>f. req_file rq = Some f \<longrightarrow>
         (\<exists>c. upload_handler dirname rq = Inr c
            \<and> child c = \<lparr>command = ''python3'',
                          args = [pythonScriptPath dirname, path f, outputFile dirname]\<rparr>))"
proof -
  have route: "child c = \<lparr>command = ''python3'',
                   args = [pythonScriptPath dirname, path_join [''uploads/'', gen],
                           outputFile dirname]\<rparr>
       \<and> disk' (path_join [''uploads/'', gen]) \<noteq> None"
    if h: "post_upload dirname gen rq0 parts disk = Inr (c, disk')" for c disk'
  proof -
    from h obtain rq' where s: "single upload ''csvFile'' gen rq0 parts disk = Inr (rq', disk')"
      and u: "upload_handler dirname rq' = Inr c"
      by (auto simp: post_upload_def split: sum.splits)
    from s have sp: "single_parts upload ''csvFile'' gen 1 parts (None, disk)
                  = Inr (req_file rq', disk')"
      by (auto simp: single_def split: sum.splits)
    have "stored_at (path_join [dest upload, gen]) (None, disk)"
      by (simp add: stored_at_def)
    from single_parts_stored_at [OF sp this]
    have st: "stored_at (path_join [''uploads/'', gen]) (req_file rq', disk')"
      by (simp add: upload_def)
    from upload_handler_Inr [OF u] obtain f where f: "req_file rq' = Some f"
      and c: "child c = \<lparr>command = ''python3'',
                    args = [pythonScriptPath dirname, path f, outputFile dirname]\<rparr>"
      by blast
    from st f have "path f = path_join [''uploads/'', gen]"
      "disk' (path_join [''uploads/'', gen]) \<noteq> None"
      by (simp_all add: stored_at_def)
    with c show ?thesis by simp
  qed
  have handler: "\<exists>c. upload_handler dirname rq = Inr c
            \<and> child c = \<lparr>command = ''python3'',
                          args = [pythonScriptPath dirname, path f, outputFile dirname]\<rparr>"
    if "req_file rq = Some f" for f
    using that by (simp add: upload_handler_def)
  from route handler show ?thesis by blast
qed

theorem spawn_invocation_witness:
  "post_upload ''/srv/app'' ''0a1b2c'' bare_request sample_parts Map.empty
     = Inr (sample_conn bare_request, [''uploads/0a1b2c'' \<mapsto> ''a,b,c''])
   \<and> child (sample_conn bare_request) = \<lparr>command = ''python3'',
        args = [pythonScriptPath ''/srv/app'', path_join [''uploads/'', ''0a1b2c''],
                outputFile ''/srv/app'']\<rparr>
   \<and> args (child (sample_conn bare_request))
       = [''/srv/app/run_dealerships.py'', ''uploads/0a1b2c'', ''/srv/app/uploads/processed.csv'']"
proof -
  have h: "post_upload ''/srv/app'' ''0a1b2c'' bare_request sample_parts Map.empty
     = Inr (sample_conn bare_request, [''uploads/0a1b2c'' \<mapsto> ''a,b,c''])"
    by (rule post_upload_sample)
  have a: "args (child (sample_conn bare_request))
       = [''/srv/app/run_dealerships.py'', ''uploads/0a1b2c'', ''/srv/app/uploads/processed.csv'']"
    by (simp add: sample_conn_def)
  from spawn_invocation [of "''/srv/app''" "''0a1b2c''" bare_request sample_parts Map.empty] h a
  show ?thesis by blast
qed

subsection \<open>The output path\<close>

lemma split_slash_plain: "CHR ''/'' \<notin> set s \<Longrightarrow> split_slash s = [s]"
  by (induction s) auto

lemma split_slash_at:
  "CHR ''/'' \<notin> set s \<Longrightarrow> split_slash (s @ CHR ''/'' # rest) = s # split_slash rest"
  by (induction s) auto

lemma split_slash_segments:
  "CHR ''/'' \<notin> set s \<Longrightarrow> list_all plain segs \<Longrightarrow>
     split_slash (s @ abs_path segs) = s # segs"
proof (induction segs arbitrary: s)
  case Nil
  then show ?case by (simp add: abs_path_def split_slash_plain)
next
  case (Cons x segs)
  from Cons.prems have px: "plain x" and rest: "list_all plain segs"
    by simp_all
  from px have x: "CHR ''/'' \<notin> set x" by (simp add: plain_def)
  have "split_slash (s @ abs_path (x # segs)) = s # split_slash (x @ abs_path segs)"
    using split_slash_at [OF Cons.prems(1), of "x @ abs_path segs"]
    by (simp add: abs_path_def)
  with Cons.IH [OF x rest] show ?case by simp
qed

lemma normalize_segments_plain:
  "list_all plain segs \<Longrightarrow> normalize_segments b acc segs = rev acc @ segs"
proof (induction segs arbitrary: acc)
  case Nil
  show ?case by simp
next
  case (Cons x segs)
  from Cons.prems have px: "plain x" and rest: "list_all plain segs"
    by simp_all
  from px have "x \<noteq> []" "x \<noteq> ''.''" "x \<noteq> ''..''" by (simp_all add: plain_def)
  with Cons.IH [OF rest, of "x # acc"] show ?case by simp
qed

lemma join_slash_plain:
  "segs \<noteq> [] \<Longrightarrow> CHR ''/'' # join_slash segs = abs_path segs"
proof (induction segs rule: join_slash.induct)
  case 1
  then show ?case by simp
next
  case (2 s)
  show ?case by (simp add: abs_path_def)
next
  case (3 s t ss)
  then show ?case by (simp add: abs_path_def)
qed

lemma abs_path_last:
  "segs \<noteq> [] \<Longrightarrow> list_all plain segs \<Longrightarrow>
     abs_path segs \<noteq> [] \<and> hd (abs_path segs) = CHR ''/'' \<and> last (abs_path segs) \<noteq> CHR ''/''"
proof (induction segs rule: rev_induct)
  case Nil
  then show ?case by simp
next
  case (snoc x xs)
  then have "plain x" by simp
  then have "x \<noteq> []" "CHR ''/'' \<notin> set x" by (simp_all add: plain_def)
  then have "last x \<noteq> CHR ''/''" using last_in_set by metis
  with \<open>x \<noteq> []\<close> show ?case
    by (cases xs) (simp_all add: abs_path_def)
qed

lemma path_normalize_abs_path:
  assumes "segs \<noteq> []" "list_all plain segs"
  shows "path_normalize (abs_path segs) = abs_path segs"
proof -
  have sp: "split_slash (abs_path segs) = [] # segs"
    using split_slash_segments [of "[]" segs] assms(2) by simp
  have q: "normalize_segments False [] ([] # segs) = segs"
    using normalize_segments_plain [OF assms(2), of False "[]"] by simp
  from assms have "plain (hd segs)" by (cases segs) simp_all
  then have "hd segs \<noteq> []" by (simp add: plain_def)
  with assms(1) have ne: "join_slash segs \<noteq> []"
    by (cases segs rule: join_slash.cases) simp_all
  from abs_path_last [OF assms] sp q ne join_slash_plain [OF assms(1)]
  show ?thesis by (simp add: path_normalize_def Let_def)
qed

lemma outputFile_under_dirname:
  assumes "segs \<noteq> []" "list_all plain segs"
  shows "outputFile (abs_path segs) = abs_path segs @ ''/uploads/processed.csv''"
proof -
  let ?all = "segs @ [''uploads'', ''processed.csv'']"
  have "plain ''uploads''" "plain ''processed.csv''" by (simp_all add: plain_def)
  with assms(2) have p: "list_all plain ?all" by simp
  have ne: "?all \<noteq> []" by simp
  have eq: "abs_path ?all = abs_path segs @ ''/uploads/processed.csv''"
    by (simp add: abs_path_def)
  from abs_path_last [OF assms] have "abs_path segs \<noteq> []" by simp
  then have "path_join [abs_path segs, ''uploads'', ''processed.csv'']
               = path_normalize (abs_path segs @ ''/uploads/processed.csv'')"
    by (simp add: path_join_def)
  with path_normalize_abs_path [OF ne p] eq show ?thesis
    by (simp add: outputFile_def)
qed

text \<open>
  C4. The output path given to the child is \<^verbatim>\<open>path.join(__dirname, 'uploads',
  'processed.csv')\<close> for every request: two requests, whatever their headers, bodies
  and generated names, get the same path, and for a normalised absolute
  \<^verbatim>\<open>__dirname\<close> it is \<^verbatim>\<open>uploads/processed.csv\<close> under that directory.
\<close>

theorem output_path_is_fixed:
  assumes "post_upload dirname gen rq parts disk = Inr (c, disk')"
    and "post_upload dirname gen' rq' parts' disk'' = Inr (c', disk''')"
  shows "args (child c) ! 2 = path_join [dirname, ''uploads'', ''processed.csv'']
       \<and> args (child c') ! 2 = args (child c) ! 2
       \<and> (\<forall>segs. segs \<noteq> [] \<and> list_all plain segs \<and> dirname = abs_path segs \<longrightarrow>
             args (child c) ! 2 = dirname @ ''/uploads/processed.csv'')"
proof -
  have out: "args (child k) ! 2 = outputFile dirname"
    if "post_upload dirname g r ps d = Inr (k, d')" for g r ps d k d'
  proof -
    from that obtain r' where "upload_handler dirname r' = Inr k"
      by (auto simp: post_upload_def split: sum.splits)
    from upload_handler_Inr [OF this] show ?thesis by auto
  qed
  from out [OF assms(1)] out [OF assms(2)] outputFile_under_dirname
  show ?thesis by (auto simp: outputFile_def)
qed

theorem output_path_is_fixed_witness:
  "post_upload ''/srv/app'' ''0a1b2c'' bare_request sample_parts Map.empty
     = Inr (sample_conn bare_request, [''uploads/0a1b2c'' \<mapsto> ''a,b,c''])
   \<and> post_upload ''/srv/app'' ''ffee'' (bare_request\<lparr>no_cache := True\<rparr>)
        [File_part ''csvFile'' ''other.csv'' ''x''] [''uploads/0a1b2c'' \<mapsto> ''a,b,c'']
     = Inr (other_conn, [''uploads/0a1b2c'' \<mapsto> ''a,b,c'', ''uploads/ffee'' \<mapsto> ''x''])
   \<and> [''srv'', ''app''] \<noteq> [] \<and> list_all plain [''srv'', ''app'']
   \<and> ''/srv/app'' = abs_path [''srv'', ''app'']
   \<and> args (child (sample_conn bare_request)) ! 2 = ''/srv/app'' @ ''/uploads/processed.csv''
   \<and> args (child other_conn) ! 2 = args (child (sample_conn bare_request)) ! 2"
proof -
  have h1: "post_upload ''/srv/app'' ''0a1b2c'' bare_request sample_parts Map.empty
     = Inr (sample_conn bare_request, [''uploads/0a1b2c'' \<mapsto> ''a,b,c''])"
    by (rule post_upload_sample)
  have h2: "post_upload ''/srv/app'' ''ffee'' (bare_request\<lparr>no_cache := True\<rparr>)
        [File_part ''csvFile'' ''other.csv'' ''x''] [''uploads/0a1b2c'' \<mapsto> ''a,b,c'']
     = Inr (other_conn, [''uploads/0a1b2c'' \<mapsto> ''a,b,c'', ''uploads/ffee'' \<mapsto> ''x''])"
    by (simp add: post_upload_def single_def upload_def includeFile_def Let_def
      path_join_def path_normalize_def upload_handler_def basename_def other_conn_def
      outputFile_sample pythonScriptPath_sample)
  have h3: "[''srv'', ''app''] \<noteq> [] \<and> list_all plain [''srv'', ''app'']
     \<and> ''/srv/app'' = abs_path [''srv'', ''app'']"
    by (simp add: plain_def abs_path_def)
  from output_path_is_fixed [OF h1 h2] h1 h2 h3
  show ?thesis by blast
qed

subsection \<open>The form\<close>

lemma fresh_revalidates: "fresh rq (Some etag) None = revalidates rq etag"
  by (cases "if_none_match rq"; cases "if_modified_since rq")
    (auto simp add: fresh_def revalidates_def tag_known_def)

lemma send_page:
  "send etagFn GET rq body new_response =
     Inr (if revalidates rq (etagFn body)
          then new_response\<lparr>statusCode := 304, headers := [(''ETag'', etagFn body)],
                 head_sent := Some (304, [(''ETag'', etagFn body)]),
                 written := [], finished := True\<rparr>
          else new_response\<lparr>headers := [(''ETag'', etagFn body),
                                (''Content-Length'', digits (length body)),
                                (''Content-Type'', ''text/html; charset=utf-8'')],
                 head_sent := Some (200, [(''ETag'', etagFn body),
                                (''Content-Length'', digits (length body)),
                                (''Content-Type'', ''text/html; charset=utf-8'')]),
                 written := body, finished := True\<rparr>)"
  by (simp add: send_def new_response_def Let_def req_fresh_def set_header_def default_header_def
      remove_header_def fresh_revalidates)

text \<open>
  C9, as the code has it. \<^verbatim>\<open>GET /\<close> answers 200 with the page as an HTML body
  when the request does not know the page's entity tag, or asks for no cached
  answer. A request that revalidates its copy gets 304 and no body. The page has a
  \<^verbatim>\<open>form\<close> element with action \<^verbatim>\<open>/upload\<close>, method POST and multipart encoding,
  and the file input \<^verbatim>\<open>csvFile\<close> lies inside it, before its closing tag.
\<close>

theorem get_root_sends_form:
  \<open>\<not> isl (get_root etagFn GET rq new_response)
   \<and> finished (projr (get_root etagFn GET rq new_response))
   \<and> (\<not> tag_known rq (etagFn form_html) \<or> no_cache rq \<longrightarrow>
         sent_status (projr (get_root etagFn GET rq new_response)) = Some 200
         \<and> sent_header ''Content-Type'' (projr (get_root etagFn GET rq new_response))
             = Some ''text/html; charset=utf-8''
         \<and> written (projr (get_root etagFn GET rq new_response)) = form_html)
   \<and> (revalidates rq (etagFn form_html) \<longrightarrow>
         sent_status (projr (get_root etagFn GET rq new_response)) = Some 304
         \<and> written (projr (get_root etagFn GET rq new_response)) = [])
   \<and> (\<exists>before inside after.
         form_html = before
           @ ''<form action="/upload" method="POST" enctype="multipart/form-data">''
           @ inside @ ''</form>'' @ after
         \<and> sublist ''<input type="file" name="csvFile"'' inside
         \<and> \<not> sublist ''</form>'' inside)\<close>
proof -
  have fresh: "revalidates rq (etagFn form_html) \<Longrightarrow>
      sent_status (projr (get_root etagFn GET rq new_response)) = Some 304
      \<and> written (projr (get_root etagFn GET rq new_response)) = []"
    by (simp add: get_root_def send_page sent_status_def)
  have stale: "\<not> tag_known rq (etagFn form_html) \<or> no_cache rq \<Longrightarrow>
      sent_status (projr (get_root etagFn GET rq new_response)) = Some 200
      \<and> sent_header ''Content-Type'' (projr (get_root etagFn GET rq new_response))
          = Some ''text/html; charset=utf-8''
      \<and> written (projr (get_root etagFn GET rq new_response)) = form_html"
  proof -
    assume "\<not> tag_known rq (etagFn form_html) \<or> no_cache rq"
    then have "\<not> revalidates rq (etagFn form_html)"
      by (auto simp add: revalidates_def)
    then show ?thesis
      by (simp add: get_root_def send_page sent_status_def sent_header_def)
  qed
  have sent: "\<not> isl (get_root etagFn GET rq new_response)
      \<and> finished (projr (get_root etagFn GET rq new_response))"
    by (simp add: get_root_def send_page)
  let ?before = \<open>''\<newline>    <h1>Neosemo CSV Processor</h1>\<newline>    ''\<close>
  let ?inside = \<open>''\<newline>      <input type="file" name="csvFile" accept=".csv" />'' @
     ''\<newline>      <button type="submit">Upload & Process</button>\<newline>    ''\<close>
  let ?after = \<open>''\<newline>  ''\<close>
  have split: \<open>form_html = ?before
           @ ''<form action="/upload" method="POST" enctype="multipart/form-data">''
           @ ?inside @ ''</form>'' @ ?after\<close>
    by (simp add: form_html_def)
  have has: \<open>sublist ''<input type="file" name="csvFile"'' ?inside\<close>
    by code_simp
  have hasnt: \<open>\<not> sublist ''</form>'' ?inside\<close>
    by code_simp
  from sent fresh stale split has hasnt show ?thesis by blast
qed

theorem get_root_sends_form_witness:
  "\<not> tag_known bare_request (sample_etag form_html)
   \<and> sent_status (projr (get_root sample_etag GET bare_request new_response)) = Some 200
   \<and> sent_header ''Content-Type'' (projr (get_root sample_etag GET bare_request new_response))
       = Some ''text/html; charset=utf-8''
   \<and> written (projr (get_root sample_etag GET bare_request new_response)) = form_html
   \<and> revalidates (bare_request\<lparr>if_none_match := Some ''*''\<rparr>) (sample_etag form_html)
   \<and> sent_status (projr (get_root sample_etag GET (bare_request\<lparr>if_none_match := Some ''*''\<rparr>)
                          new_response)) = Some 304"
proof -
  have h: "\<not> tag_known bare_request (sample_etag form_html)"
    by (simp add: tag_known_def bare_request_def)
  have g: "revalidates (bare_request\<lparr>if_none_match := Some ''*''\<rparr>) (sample_etag form_html)"
    by (simp add: revalidates_def tag_known_def bare_request_def)
  from get_root_sends_form [of sample_etag bare_request]
    get_root_sends_form [of sample_etag "bare_request\<lparr>if_none_match := Some ''*''\<rparr>"] h g
  show ?thesis by blast
qed

text \<open>
  C9 does not hold for every request. A browser that comes back sends the entity
  tag it was given in \<^verbatim>\<open>If-None-Match\<close>; that request, and one with
  \<^verbatim>\<open>If-None-Match: *\<close>, is answered 304 with an empty body.
\<close>

theorem revisit_counterexample:
  "\<not> isl (get_root sample_etag GET (bare_request\<lparr>if_none_match := Some ''*''\<rparr>) new_response)
   \<and> sent_status (projr (get_root sample_etag GET (bare_request\<lparr>if_none_match := Some ''*''\<rparr>)
                          new_response)) = Some 304
   \<and> written (projr (get_root sample_etag GET (bare_request\<lparr>if_none_match := Some ''*''\<rparr>)
                      new_response)) = []
   \<and> sent_status (projr (get_root sample_etag GET
        (bare_request\<lparr>if_none_match := Some (sample_etag form_html)\<rparr>) new_response)) = Some 304
   \<and> written (projr (get_root sample_etag GET
        (bare_request\<lparr>if_none_match := Some (sample_etag form_html)\<rparr>) new_response)) = []"
proof -
  have a: "revalidates (bare_request\<lparr>if_none_match := Some ''*''\<rparr>) (sample_etag form_html)"
    by (simp add: revalidates_def tag_known_def bare_request_def)
  have "split_comma (sample_etag form_html) = [sample_etag form_html]"
    unfolding sample_etag_def form_html_def by code_simp
  moreover have "trim (sample_etag form_html) = sample_etag form_html"
    unfolding sample_etag_def form_html_def by code_simp
  ultimately have b: "revalidates (bare_request\<lparr>if_none_match := Some (sample_etag form_html)\<rparr>)
             (sample_etag form_html)"
    by (simp add: revalidates_def tag_known_def bare_request_def parseTokenList_def
        etag_matches_def)
  from a b show ?thesis
    by (simp add: get_root_def send_page sent_status_def)
qed

end
